theory Spec2Isabelle
  imports Complex_Main
begin

section \<open>Values, documents and the console\<close>

text \<open>
  \<open>queries.js\<close> drives a document store through the Node.js driver and prints what
  it gets back. The values that travel between the store, the script and the console
  are JavaScript values; \<open>JId\<close> stands for an ObjectId. Numbers are modelled as
  rationals: the script never computes with a price, it only stores the literal
  \<open>15.99\<close> and hands prices to the store's \<open>$avg\<close>, so the rounding of doubles is
  outside the model.
\<close>

datatype jsval =
    JNull
  | JBool bool
  | JNum rat
  | JStr string
  | JId nat
  | JArr "jsval list"
  | JObj "(string \<times> jsval) list"

text \<open>A rejected promise carries an error object; the script only reads its \<open>message\<close>.\<close>

datatype js_error = MongoError (message: string)

text \<open>
  One console call is one event. The arguments are kept structurally: \<open>Str s\<close> is a
  string printed as it is, \<open>Json v\<close> is the text \<open>JSON.stringify(v, null, 2)\<close>,
  \<open>Val v\<close> is a value handed to the console itself (which formats it with its own
  inspector), \<open>Err e\<close> an error object handed to the console.
\<close>

datatype arg = Str string | Json jsval | Val jsval | Err js_error

datatype out = ConsoleLog "arg list" | ConsoleError "arg list"

text \<open>
  Modelled from the spec: the Book entity of section 3 (title, author, genre,
  published_year, price, in_stock). The seeding script \<open>insert_books.js\<close> that creates
  the documents is not under src/. \<open>book_id\<close> is the store's \<open>_id\<close>.
\<close>

record book =
  book_id :: nat
  title :: string
  author :: string
  genre :: string
  published_year :: int
  price :: rat
  in_stock :: bool

definition book_doc :: "book \<Rightarrow> jsval" where
  "book_doc b = JObj
     [(''_id'', JId (book_id b)),
      (''title'', JStr (title b)),
      (''author'', JStr (author b)),
      (''genre'', JStr (genre b)),
      (''published_year'', JNum (of_int (published_year b))),
      (''price'', JNum (price b)),
      (''in_stock'', JBool (in_stock b))]"

section \<open>The explain result\<close>

datatype stage = Stage (stage: string) (inputStage: "stage option")

record execution_stats =
  executionTimeMillis :: nat
  totalDocsExamined :: nat
  executionStages :: stage

record explain_plan =
  executionStats :: execution_stats

section \<open>The world: store, console and the trace of driver calls\<close>

text \<open>
  Every awaited driver call of the script has its own site, named after the constant
  that receives its result (\<open>S_connect\<close> and \<open>S_close\<close> for the two calls on the
  client). Each site is executed at most once per run.
\<close>

datatype site =
    S_connect
  | S_fictionBooks | S_recentBooks | S_orwellBooks
  | S_updateResult | S_updatedHobbit | S_deleteResult
  | S_inStockAndRecent | S_projectedBooks | S_sortedAsc | S_sortedDesc
  | S_page1 | S_page2
  | S_avgPriceByGenre | S_authorWithMostBooks | S_booksByDecade
  | S_titleIndexResult | S_compoundIndexResult
  | S_explainTitleSearch | S_explainCompoundSearch
  | S_close

text \<open>
  \<open>docs\<close> is the collection in its natural order, \<open>indexes\<close> the names of its
  indexes, \<open>connected\<close> the state of the client, \<open>console\<close> what has been printed.
  \<open>calls\<close> is a ghost trace: the sites whose driver call has been issued, in order.
\<close>

record world =
  docs :: "book list"
  indexes :: "string list"
  connected :: bool
  console :: "out list"
  calls :: "site list"

text \<open>
  What the script cannot decide is the environment's: whether the driver call of a
  site rejects (\<open>fault\<close>), and which plan the store's planner reports for an
  \<open>explain\<close> (\<open>plan\<close>).
\<close>

record env =
  fault :: "site \<Rightarrow> js_error option"
  plan :: "site \<Rightarrow> explain_plan"

type_synonym 'a io = "world \<Rightarrow> (js_error + 'a) \<times> world"

definition done_io :: "'a \<Rightarrow> 'a io" where
  "done_io x w = (Inr x, w)"

text \<open>\<open>await m k\<close> is \<open>const x = await m; k x\<close>: a rejection of \<open>m\<close> skips \<open>k\<close>.\<close>

definition await :: "'a io \<Rightarrow> ('a \<Rightarrow> 'b io) \<Rightarrow> 'b io" where
  "await m k w = (case m w of (Inl e, w') \<Rightarrow> (Inl e, w') | (Inr x, w') \<Rightarrow> k x w')"

definition seq :: "unit io \<Rightarrow> 'b io \<Rightarrow> 'b io" where
  "seq m k = await m (\<lambda>_. k)"

text \<open>\<open>try { m } catch (e) { h e }\<close>\<close>

definition try_catch :: "'a io \<Rightarrow> (js_error \<Rightarrow> 'a io) \<Rightarrow> 'a io" where
  "try_catch m h w = (case m w of (Inl e, w') \<Rightarrow> h e w' | (Inr x, w') \<Rightarrow> (Inr x, w'))"

text \<open>
  \<open>try { m } finally { fin }\<close>: \<open>fin\<close> always runs; when it throws, its error
  replaces the outcome of \<open>m\<close>.
\<close>

definition try_finally :: "'a io \<Rightarrow> unit io \<Rightarrow> 'a io" where
  "try_finally m fin w =
     (case m w of (r, w') \<Rightarrow>
        (case fin w' of (Inl e, w'') \<Rightarrow> (Inl e, w'') | (Inr _, w'') \<Rightarrow> (r, w'')))"

definition console_log :: "arg list \<Rightarrow> unit io" where
  "console_log args w = (Inr (), w\<lparr>console := console w @ [ConsoleLog args]\<rparr>)"

definition console_error :: "arg list \<Rightarrow> unit io" where
  "console_error args w = (Inr (), w\<lparr>console := console w @ [ConsoleError args]\<rparr>)"

text \<open>
  A driver call at site \<open>s\<close>: the call is issued (and traced); it rejects with the
  environment's error, or performs \<open>act\<close> on the world and resolves with its result.
\<close>

definition driver_call :: "env \<Rightarrow> site \<Rightarrow> (world \<Rightarrow> 'a \<times> world) \<Rightarrow> 'a io" where
  "driver_call en s act w =
     (let w1 = w\<lparr>calls := calls w @ [s]\<rparr> in
      case fault en s of
        Some e \<Rightarrow> (Inl e, w1)
      | None \<Rightarrow> (case act w1 of (r, w2) \<Rightarrow> (Inr r, w2)))"

section \<open>printResult\<close>

definition isArray :: "jsval \<Rightarrow> bool" where
  "isArray v = (case v of JArr xs \<Rightarrow> True | _ \<Rightarrow> False)"

text \<open>\<open>result.length\<close>, read only where \<open>result\<close> is an array.\<close>

definition array_length :: "jsval \<Rightarrow> nat" where
  "array_length v = (case v of JArr xs \<Rightarrow> length xs | _ \<Rightarrow> 0)"

definition printResult :: "string \<Rightarrow> jsval \<Rightarrow> unit io" where
  "printResult ttl result =
     seq (console_log [Str (''\<newline>--- '' @ ttl @ '' ---'')])
       (if isArray result then
          (if array_length result = 0 then console_log [Str ''No documents found.'']
           else console_log [Json result])
        else console_log [Val result])"

section \<open>The store's operations\<close>

text \<open>
  Modelled from the spec: the operations of the document store (section 6). They
  belong to the driver and the store, which the script only calls. They act on the
  collection in its natural order: a filter keeps the matching documents in that
  order, a sort is stable and a function of the collection alone, \<open>skip\<close> and
  \<open>limit\<close> cut the sorted sequence, and the single-document operations act on the
  first match.
\<close>

definition find_docs :: "(book \<Rightarrow> bool) \<Rightarrow> book list \<Rightarrow> book list" where
  "find_docs flt ds = filter flt ds"

definition sort_asc :: "(book \<Rightarrow> 'k::linorder) \<Rightarrow> book list \<Rightarrow> book list" where
  "sort_asc key ds = sort_key key ds"

definition sort_desc :: "('a \<Rightarrow> 'k::linorder) \<Rightarrow> 'a list \<Rightarrow> 'a list" where
  "sort_desc key ds = rev (sort_key key (rev ds))"

definition skip :: "nat \<Rightarrow> 'a list \<Rightarrow> 'a list" where
  "skip n ds = drop n ds"

text \<open>A limit of 0 is the store's way of saying "no limit".\<close>

definition limit :: "nat \<Rightarrow> 'a list \<Rightarrow> 'a list" where
  "limit n ds = (if n = 0 then ds else take n ds)"

text \<open>
  \<open>project fs d\<close> is the inclusion projection \<open>{f: 1, ..., _id: 0}\<close>: the fields
  named in \<open>fs\<close>, in the document's order, without the identifier.
\<close>

definition project :: "string list \<Rightarrow> book \<Rightarrow> jsval" where
  "project fs b =
     (case book_doc b of
        JObj kvs \<Rightarrow> JObj (filter (\<lambda>kv. fst kv \<in> set fs) kvs)
      | d \<Rightarrow> d)"

definition collection_find :: "env \<Rightarrow> site \<Rightarrow> (book list \<Rightarrow> jsval list) \<Rightarrow> jsval io" where
  "collection_find en s cursor = driver_call en s (\<lambda>w. (JArr (cursor (docs w)), w))"

definition findOne :: "env \<Rightarrow> site \<Rightarrow> (book \<Rightarrow> bool) \<Rightarrow> jsval io" where
  "findOne en s flt =
     driver_call en s (\<lambda>w.
       ((case List.find flt (docs w) of None \<Rightarrow> JNull | Some b \<Rightarrow> book_doc b), w))"

fun update_first :: "(book \<Rightarrow> bool) \<Rightarrow> (book \<Rightarrow> book) \<Rightarrow> book list \<Rightarrow> book list" where
  "update_first flt upd [] = []"
| "update_first flt upd (b # bs) =
     (if flt b then upd b # bs else b # update_first flt upd bs)"

definition update_result :: "(book \<Rightarrow> bool) \<Rightarrow> (book \<Rightarrow> book) \<Rightarrow> book list \<Rightarrow> jsval" where
  "update_result flt upd ds =
     (let matched = (case List.find flt ds of None \<Rightarrow> 0 | Some b \<Rightarrow> 1);
          modified = (case List.find flt ds of None \<Rightarrow> 0
                      | Some b \<Rightarrow> if upd b = b then 0 else 1)
      in JObj [(''acknowledged'', JBool True),
               (''modifiedCount'', JNum modified),
               (''upsertedId'', JNull),
               (''upsertedCount'', JNum 0),
               (''matchedCount'', JNum matched)])"

definition updateOne ::
  "env \<Rightarrow> site \<Rightarrow> (book \<Rightarrow> bool) \<Rightarrow> (book \<Rightarrow> book) \<Rightarrow> jsval io" where
  "updateOne en s flt upd =
     driver_call en s (\<lambda>w.
       (update_result flt upd (docs w), w\<lparr>docs := update_first flt upd (docs w)\<rparr>))"

fun delete_first :: "(book \<Rightarrow> bool) \<Rightarrow> book list \<Rightarrow> book list" where
  "delete_first flt [] = []"
| "delete_first flt (b # bs) = (if flt b then bs else b # delete_first flt bs)"

definition delete_result :: "(book \<Rightarrow> bool) \<Rightarrow> book list \<Rightarrow> jsval" where
  "delete_result flt ds =
     JObj [(''acknowledged'', JBool True),
           (''deletedCount'', JNum (case List.find flt ds of None \<Rightarrow> 0 | Some b \<Rightarrow> 1))]"

definition deleteOne :: "env \<Rightarrow> site \<Rightarrow> (book \<Rightarrow> bool) \<Rightarrow> jsval io" where
  "deleteOne en s flt =
     driver_call en s (\<lambda>w.
       (delete_result flt (docs w), w\<lparr>docs := delete_first flt (docs w)\<rparr>))"

definition aggregate :: "env \<Rightarrow> site \<Rightarrow> (book list \<Rightarrow> jsval list) \<Rightarrow> jsval io" where
  "aggregate en s pipeline = driver_call en s (\<lambda>w. (JArr (pipeline (docs w)), w))"

text \<open>
  \<open>$group\<close>: one group per distinct key, in the order in which the keys first
  appear, each with its members.
\<close>

definition first_seen :: "'k list \<Rightarrow> 'k list" where
  "first_seen ks = rev (remdups (rev ks))"

definition group_stage :: "(book \<Rightarrow> 'k) \<Rightarrow> book list \<Rightarrow> ('k \<times> book list) list" where
  "group_stage key ds =
     map (\<lambda>k. (k, filter (\<lambda>b. key b = k) ds)) (first_seen (map key ds))"

definition avg :: "rat list \<Rightarrow> rat" where
  "avg xs = sum_list xs / of_nat (length xs)"

text \<open>\<open>$mod\<close> is the store's remainder: it takes the sign of the dividend.\<close>

definition mod_expr :: "int \<Rightarrow> int \<Rightarrow> int" where
  "mod_expr a b = sgn a * (\<bar>a\<bar> mod \<bar>b\<bar>)"

definition createIndex :: "env \<Rightarrow> site \<Rightarrow> string \<Rightarrow> string io" where
  "createIndex en s name =
     driver_call en s (\<lambda>w.
       (name, w\<lparr>indexes := (if name \<in> set (indexes w) then indexes w
                             else indexes w @ [name])\<rparr>))"

definition explain :: "env \<Rightarrow> site \<Rightarrow> explain_plan io" where
  "explain en s = driver_call en s (\<lambda>w. (plan en s, w))"

definition client_connect :: "env \<Rightarrow> unit io" where
  "client_connect en = driver_call en S_connect (\<lambda>w. ((), w\<lparr>connected := True\<rparr>))"

definition client_close :: "env \<Rightarrow> unit io" where
  "client_close en = driver_call en S_close (\<lambda>w. ((), w\<lparr>connected := False\<rparr>))"

section \<open>Task 2: basic CRUD operations\<close>

definition fictionBooks :: "book list \<Rightarrow> jsval list" where
  "fictionBooks ds = map book_doc (find_docs (\<lambda>b. genre b = ''Fiction'') ds)"

definition recentBooks :: "book list \<Rightarrow> jsval list" where
  "recentBooks ds = map book_doc (find_docs (\<lambda>b. published_year b > 1950) ds)"

definition orwellBooks :: "book list \<Rightarrow> jsval list" where
  "orwellBooks ds = map book_doc (find_docs (\<lambda>b. author b = ''George Orwell'') ds)"

definition is_hobbit :: "book \<Rightarrow> bool" where
  "is_hobbit b = (title b = ''The Hobbit'')"

definition is_moby_dick :: "book \<Rightarrow> bool" where
  "is_moby_dick b = (title b = ''Moby Dick'')"

definition set_price :: "book \<Rightarrow> book" where
  "set_price b = b\<lparr>price := 1599 / 100\<rparr>"

definition runTask2 :: "env \<Rightarrow> unit io" where
  "runTask2 en =
     seq (console_log [Str ''\<newline>--- Running Task 2: Basic CRUD Operations ---''])
    (await (collection_find en S_fictionBooks fictionBooks) (\<lambda>r1.
     seq (printResult ''Task 2.1: Find all 'Fiction' books'' r1)
    (await (collection_find en S_recentBooks recentBooks) (\<lambda>r2.
     seq (printResult ''Task 2.2: Find books published after 1950'' r2)
    (await (collection_find en S_orwellBooks orwellBooks) (\<lambda>r3.
     seq (printResult (''Task 2.3: Find books by 'George Orwell'' @ [CHR 0x27]) r3)
    (await (updateOne en S_updateResult is_hobbit set_price) (\<lambda>updateResult.
     seq (printResult (''Task 2.4: Update price of 'The Hobbit'' @ [CHR 0x27]) updateResult)
    (await (findOne en S_updatedHobbit is_hobbit) (\<lambda>updatedHobbit.
     seq (printResult (''Task 2.4: Verifying update for 'The Hobbit'' @ [CHR 0x27])
            updatedHobbit)
    (await (deleteOne en S_deleteResult is_moby_dick) (\<lambda>deleteResult.
     printResult (''Task 2.5: Delete 'Moby Dick'' @ [CHR 0x27]) deleteResult))))))))))))"

section \<open>Task 3: advanced queries\<close>

definition inStockAndRecent :: "book list \<Rightarrow> jsval list" where
  "inStockAndRecent ds =
     map book_doc (find_docs (\<lambda>b. in_stock b = True \<and> published_year b > 1950) ds)"

definition projectedBooks :: "book list \<Rightarrow> jsval list" where
  "projectedBooks ds =
     map (project [''title'', ''author'', ''price'']) (find_docs (\<lambda>b. True) ds)"

definition sortedAsc :: "book list \<Rightarrow> jsval list" where
  "sortedAsc ds =
     map (project [''title'', ''price'']) (sort_asc price (find_docs (\<lambda>b. True) ds))"

definition sortedDesc :: "book list \<Rightarrow> jsval list" where
  "sortedDesc ds =
     map (project [''title'', ''price'']) (sort_desc price (find_docs (\<lambda>b. True) ds))"

text \<open>The documents a page selects, before the projection.\<close>

definition page1_docs :: "book list \<Rightarrow> book list" where
  "page1_docs ds = limit 5 (skip 0 (sort_asc published_year (find_docs (\<lambda>b. True) ds)))"

definition page2_docs :: "book list \<Rightarrow> book list" where
  "page2_docs ds = limit 5 (skip 5 (sort_asc published_year (find_docs (\<lambda>b. True) ds)))"

definition page1 :: "book list \<Rightarrow> jsval list" where
  "page1 ds = map (project [''title'', ''published_year'']) (page1_docs ds)"

definition page2 :: "book list \<Rightarrow> jsval list" where
  "page2 ds = map (project [''title'', ''published_year'']) (page2_docs ds)"

definition runTask3 :: "env \<Rightarrow> unit io" where
  "runTask3 en =
     seq (console_log [Str ''\<newline>--- Running Task 3: Advanced Queries ---''])
    (await (collection_find en S_inStockAndRecent inStockAndRecent) (\<lambda>r1.
     seq (printResult ''Task 3.1: Find in-stock books published after 1950'' r1)
    (await (collection_find en S_projectedBooks projectedBooks) (\<lambda>r2.
     seq (printResult ''Task 3.2: Project title, author, and price'' r2)
    (await (collection_find en S_sortedAsc sortedAsc) (\<lambda>r3.
     seq (printResult ''Task 3.3: Sort by price ascending'' r3)
    (await (collection_find en S_sortedDesc sortedDesc) (\<lambda>r4.
     seq (printResult ''Task 3.3: Sort by price descending'' r4)
    (await (collection_find en S_page1 page1) (\<lambda>r5.
     seq (printResult ''Task 3.4: Pagination - Page 1 (5 books)'' r5)
    (await (collection_find en S_page2 page2) (\<lambda>r6.
     printResult ''Task 3.4: Pagination - Page 2 (5 books)'' r6))))))))))))"

section \<open>Task 4: aggregation pipelines\<close>

text \<open>The \<open>$group\<close> stage of each pipeline: key and accumulated fields.\<close>

definition group_by_genre :: "book list \<Rightarrow> (string \<times> rat \<times> nat) list" where
  "group_by_genre ds =
     map (\<lambda>(k, bs). (k, avg (map price bs), length bs)) (group_stage genre ds)"

definition group_by_author :: "book list \<Rightarrow> (string \<times> nat) list" where
  "group_by_author ds = map (\<lambda>(k, bs). (k, length bs)) (group_stage author ds)"

definition decade :: "book \<Rightarrow> int" where
  "decade b = published_year b - mod_expr (published_year b) 10"

definition group_by_decade :: "book list \<Rightarrow> (int \<times> nat) list" where
  "group_by_decade ds = map (\<lambda>(k, bs). (k, length bs)) (group_stage decade ds)"

definition avgPriceByGenre :: "book list \<Rightarrow> jsval list" where
  "avgPriceByGenre ds =
     map (\<lambda>(k, a, n). JObj [(''_id'', JStr k), (''averagePrice'', JNum a),
                            (''bookCount'', JNum (of_nat n))])
       (sort_desc (\<lambda>(k, a, n). a) (group_by_genre ds))"

definition authorWithMostBooks :: "book list \<Rightarrow> jsval list" where
  "authorWithMostBooks ds =
     map (\<lambda>(k, n). JObj [(''_id'', JStr k), (''numberOfBooks'', JNum (of_nat n))])
       (limit 1 (sort_desc (\<lambda>(k, n). n) (group_by_author ds)))"

text \<open>
  \<open>{ $project: { decade: "$_id", count: 1, _id: 0 } }\<close> keeps \<open>count\<close>, adds
  \<open>decade\<close> and drops \<open>_id\<close>.
\<close>

definition booksByDecade :: "book list \<Rightarrow> jsval list" where
  "booksByDecade ds =
     map (\<lambda>(k, n). JObj [(''count'', JNum (of_nat n)), (''decade'', JNum (of_int k))])
       (sort_key (\<lambda>(k, n). k) (group_by_decade ds))"

definition runTask4 :: "env \<Rightarrow> unit io" where
  "runTask4 en =
     seq (console_log [Str ''\<newline>--- Running Task 4: Aggregation Pipeline ---''])
    (await (aggregate en S_avgPriceByGenre avgPriceByGenre) (\<lambda>r1.
     seq (printResult ''Task 4.1: Average price by genre'' r1)
    (await (aggregate en S_authorWithMostBooks authorWithMostBooks) (\<lambda>r2.
     seq (printResult ''Task 4.2: Author with the most books'' r2)
    (await (aggregate en S_booksByDecade booksByDecade) (\<lambda>r3.
     printResult ''Task 4.3: Group books by publication decade'' r3))))))"

section \<open>Task 5: indexing and plan analysis\<close>

text \<open>Numbers inside template literals are printed in decimal.\<close>

fun show_nat :: "nat \<Rightarrow> string" where
  "show_nat n =
     (if n < 10 then [''0123456789'' ! n]
      else show_nat (n div 10) @ [''0123456789'' ! (n mod 10)])"

declare show_nat.simps [simp del]

definition show_int :: "int \<Rightarrow> string" where
  "show_int i = (if i < 0 then ''-'' @ show_nat (nat (- i)) else show_nat (nat i))"

text \<open>The name the store gives an index: fields and directions joined by underscores.\<close>

fun index_name :: "(string \<times> int) list \<Rightarrow> string" where
  "index_name [] = []"
| "index_name [(f, d)] = f @ ''_'' @ show_int d"
| "index_name ((f, d) # ks) = f @ ''_'' @ show_int d @ ''_'' @ index_name ks"

definition scanStage :: "stage \<Rightarrow> stage" where
  "scanStage winningStage =
     (case inputStage winningStage of Some s \<Rightarrow> s | None \<Rightarrow> winningStage)"

definition analyzePlan :: "string \<Rightarrow> explain_plan \<Rightarrow> unit io" where
  "analyzePlan ttl explainPlan =
     (let stats = executionStats explainPlan;
          winningStage = executionStages stats
      in
       seq (console_log [Str (''\<newline>--- '' @ ttl @ '' ---'')])
      (seq (console_log [Str (''Execution Time: '' @ show_nat (executionTimeMillis stats)
                              @ ''ms'')])
      (seq (console_log [Str (''Documents Examined: ''
                              @ show_nat (totalDocsExamined stats))])
      (seq (console_log [Str (''Winning Plan Stage: '' @ stage winningStage @ '' -> ''
                              @ stage (scanStage winningStage))])
      (if stage (scanStage winningStage) = ''IXSCAN'' then
         console_log
           [Str ''Analysis: Great! The query used an efficient index scan (IXSCAN).'']
       else if stage (scanStage winningStage) = ''COLLSCAN'' then
         console_log
           [Str ''Analysis: The query used a collection scan (COLLSCAN). An index was not used.'']
       else done_io ())))))"

text \<open>The lines \<open>analyzePlan\<close> prints.\<close>

definition plan_lines :: "string \<Rightarrow> explain_plan \<Rightarrow> out list" where
  "plan_lines ttl p =
     [ConsoleLog [Str (''\<newline>--- '' @ ttl @ '' ---'')],
      ConsoleLog [Str (''Execution Time: ''
                       @ show_nat (executionTimeMillis (executionStats p)) @ ''ms'')],
      ConsoleLog [Str (''Documents Examined: ''
                       @ show_nat (totalDocsExamined (executionStats p)))],
      ConsoleLog [Str (''Winning Plan Stage: ''
                       @ stage (executionStages (executionStats p)) @ '' -> ''
                       @ stage (scanStage (executionStages (executionStats p))))]] @
     (if stage (scanStage (executionStages (executionStats p))) = ''IXSCAN'' then
        [ConsoleLog
           [Str ''Analysis: Great! The query used an efficient index scan (IXSCAN).'']]
      else if stage (scanStage (executionStages (executionStats p))) = ''COLLSCAN'' then
        [ConsoleLog
           [Str ''Analysis: The query used a collection scan (COLLSCAN). An index was not used.'']]
      else [])"

definition runTask5 :: "env \<Rightarrow> unit io" where
  "runTask5 en =
     seq (console_log [Str ''\<newline>--- Running Task 5: Indexing ---''])
    (seq (console_log [Str ''This task creates indexes and analyzes query performance.''])
    (seq (try_catch
            (await (createIndex en S_titleIndexResult (index_name [(''title'', 1)]))
               (\<lambda>titleIndexResult.
                  console_log [Str ''Task 5.1: Index on 'title' created successfully:'',
                               Str titleIndexResult]))
            (\<lambda>e. console_error [Str ''Error creating title index:'', Str (message e)]))
    (seq (try_catch
            (await (createIndex en S_compoundIndexResult
                      (index_name [(''author'', 1), (''published_year'', - 1)]))
               (\<lambda>compoundIndexResult.
                  console_log
                    [Str ''Task 5.2: Compound index on 'author' and 'published_year' created successfully:'',
                     Str compoundIndexResult]))
            (\<lambda>e. console_error [Str ''Error creating compound index:'', Str (message e)]))
    (seq (console_log [Str ''\<newline>Task 5.3: Using explain() to analyze query performance''])
    (await (explain en S_explainTitleSearch) (\<lambda>explainTitleSearch.
     seq (analyzePlan ''Explain plan for query on indexed 'title' field'' explainTitleSearch)
    (await (explain en S_explainCompoundSearch) (\<lambda>explainCompoundSearch.
     analyzePlan
       ''Explain plan for query on compound indexed fields ('author', 'published_year')''
       explainCompoundSearch))))))))"

section \<open>main\<close>

definition run_tasks :: "env \<Rightarrow> unit io" where
  "run_tasks en =
     seq (client_connect en)
    (seq (console_log [Str ''Connected successfully to MongoDB server''])
    (seq (runTask2 en)
    (seq (runTask3 en)
    (seq (runTask4 en)
         (runTask5 en)))))"

definition main :: "env \<Rightarrow> unit io" where
  "main en =
     try_finally
       (try_catch (run_tasks en)
          (\<lambda>err. console_error [Str ''An error occurred:'', Err err]))
       (seq (client_close en)
            (console_log [Str ''\<newline>Connection to MongoDB closed.'']))"

text \<open>The last statement of the script: \<open>main().catch(console.error)\<close>.\<close>

definition script :: "env \<Rightarrow> unit io" where
  "script en = try_catch (main en) (\<lambda>e. console_error [Err e])"

section \<open>Program order and outcomes\<close>

text \<open>
  The vocabulary in which the control flow of the script is stated. The sites of each
  task in program order; \<open>workflow\<close> is the \<open>try\<close> block of \<open>main\<close>.
\<close>

definition task2_sites :: "site list" where
  "task2_sites = [S_fictionBooks, S_recentBooks, S_orwellBooks,
                  S_updateResult, S_updatedHobbit, S_deleteResult]"

definition task3_sites :: "site list" where
  "task3_sites = [S_inStockAndRecent, S_projectedBooks, S_sortedAsc, S_sortedDesc,
                  S_page1, S_page2]"

definition task4_sites :: "site list" where
  "task4_sites = [S_avgPriceByGenre, S_authorWithMostBooks, S_booksByDecade]"

definition task5_sites :: "site list" where
  "task5_sites = [S_titleIndexResult, S_compoundIndexResult,
                  S_explainTitleSearch, S_explainCompoundSearch]"

definition workflow :: "site list" where
  "workflow = S_connect # task2_sites @ task3_sites @ task4_sites @ task5_sites"

text \<open>The two sites that sit in a \<open>try\<close>/\<open>catch\<close> of their own.\<close>

definition caught_locally :: "site \<Rightarrow> bool" where
  "caught_locally s = (s = S_titleIndexResult \<or> s = S_compoundIndexResult)"

text \<open>A site aborts when its driver call rejects and nothing catches that locally.\<close>

definition aborts :: "env \<Rightarrow> site \<Rightarrow> bool" where
  "aborts en s = (fault en s \<noteq> None \<and> \<not> caught_locally s)"

text \<open>
  Of a sequence of sites in program order: the sites whose call is issued (all up to
  and including the first that aborts), and the way the sequence ends.
\<close>

fun attempted :: "env \<Rightarrow> site list \<Rightarrow> site list" where
  "attempted en [] = []"
| "attempted en (s # ss) = s # (if aborts en s then [] else attempted en ss)"

fun outcome :: "env \<Rightarrow> site list \<Rightarrow> js_error + unit" where
  "outcome en [] = Inr ()"
| "outcome en (s # ss) =
     (case fault en s of
        None \<Rightarrow> outcome en ss
      | Some e \<Rightarrow> if caught_locally s then outcome en ss else Inl e)"

text \<open>
  \<open>runs en ss m\<close>: from any world, \<open>m\<close> issues exactly the driver calls
  \<open>attempted en ss\<close> and ends as \<open>outcome en ss\<close> says.
\<close>

definition runs :: "env \<Rightarrow> site list \<Rightarrow> 'a io \<Rightarrow> bool" where
  "runs en ss m =
     (\<forall>w. calls (snd (m w)) = calls w @ attempted en ss
          \<and> (case fst (m w) of Inl e \<Rightarrow> outcome en ss = Inl e
                               | Inr x \<Rightarrow> outcome en ss = Inr ()))"

text \<open>The two lines \<open>printResult\<close> prints.\<close>

definition result_lines :: "string \<Rightarrow> jsval \<Rightarrow> out list" where
  "result_lines ttl result =
     [ConsoleLog [Str (''\<newline>--- '' @ ttl @ '' ---'')],
      (if isArray result then
         (if array_length result = 0 then ConsoleLog [Str ''No documents found.'']
          else ConsoleLog [Json result])
       else ConsoleLog [Val result])]"

section \<open>Reading results\<close>

text \<open>The numeric field \<open>f\<close> of a result record (0 when there is none).\<close>

definition num_field :: "string \<Rightarrow> jsval \<Rightarrow> rat" where
  "num_field f v =
     (case v of
        JObj kvs \<Rightarrow> (case map_of kvs f of Some (JNum r) \<Rightarrow> r | _ \<Rightarrow> 0)
      | _ \<Rightarrow> 0)"

section \<open>Sample data\<close>

text \<open>
  A small collection, an environment in which no driver call fails, and a plan of
  the fetch-after-index-scan shape; the closed examples below are evaluated on them.
\<close>

definition mk_book ::
  "nat \<Rightarrow> string \<Rightarrow> string \<Rightarrow> string \<Rightarrow> int \<Rightarrow> rat \<Rightarrow> bool \<Rightarrow> book" where
  "mk_book i t a g y p s =
     \<lparr>book_id = i, title = t, author = a, genre = g, published_year = y, price = p,
      in_stock = s\<rparr>"

definition sample_books :: "book list" where
  "sample_books =
     [mk_book 1 ''To Kill a Mockingbird'' ''Harper Lee'' ''Fiction'' 1960 (1299 / 100) True,
      mk_book 2 ''1984'' ''George Orwell'' ''Dystopian'' 1949 (1099 / 100) True,
      mk_book 3 ''The Great Gatsby'' ''F. Scott Fitzgerald'' ''Fiction'' 1925 (999 / 100) True,
      mk_book 4 ''Brave New World'' ''Aldous Huxley'' ''Dystopian'' 1932 (23 / 2) False,
      mk_book 5 ''The Hobbit'' ''J.R.R. Tolkien'' ''Fantasy'' 1937 (25 / 2) True,
      mk_book 6 ''The Catcher in the Rye'' ''J.D. Salinger'' ''Fiction'' 1951 (899 / 100) True,
      mk_book 7 ''Pride and Prejudice'' ''Jane Austen'' ''Romance'' 1813 (799 / 100) True,
      mk_book 8 ''The Lord of the Rings'' ''J.R.R. Tolkien'' ''Fantasy'' 1954 (1999 / 100) True,
      mk_book 9 ''Animal Farm'' ''George Orwell'' ''Political Satire'' 1945 (17 / 2) False,
      mk_book 10 ''The Alchemist'' ''Paulo Coelho'' ''Fiction'' 1988 (1099 / 100) True,
      mk_book 11 ''Moby Dick'' ''Herman Melville'' ''Adventure'' 1851 (25 / 2) False,
      mk_book 12 ''Wuthering Heights'' ''Emily Bronte'' ''Gothic Fiction'' 1847 (999 / 100) True]"

definition orwell_books :: "book list" where
  "orwell_books =
     [mk_book 2 ''1984'' ''George Orwell'' ''Dystopian'' 1949 (1099 / 100) True,
      mk_book 9 ''Animal Farm'' ''George Orwell'' ''Political Satire'' 1945 (17 / 2) False]"

definition fresh_world :: "book list \<Rightarrow> world" where
  "fresh_world ds = \<lparr>docs = ds, indexes = [], connected = False, console = [], calls = []\<rparr>"

definition sample_plan :: explain_plan where
  "sample_plan =
     \<lparr>executionStats =
        \<lparr>executionTimeMillis = 3, totalDocsExamined = 1,
         executionStages = Stage ''FETCH'' (Some (Stage ''IXSCAN'' None))\<rparr>\<rparr>"

definition no_faults :: env where
  "no_faults = \<lparr>fault = (\<lambda>s. None), plan = (\<lambda>s. sample_plan)\<rparr>"

text \<open>An environment in which exactly the driver call of site \<open>s\<close> rejects.\<close>

definition fault_at :: "site \<Rightarrow> string \<Rightarrow> env" where
  "fault_at s msg =
     \<lparr>fault = (\<lambda>t. if t = s then Some (MongoError msg) else None),
      plan = (\<lambda>s. sample_plan)\<rparr>"

section \<open>Running the building blocks\<close>

lemma console_log_run [simp]:
  "console_log args w = (Inr (), w\<lparr>console := console w @ [ConsoleLog args]\<rparr>)"
  by (simp add: console_log_def)

lemma console_error_run [simp]:
  "console_error args w = (Inr (), w\<lparr>console := console w @ [ConsoleError args]\<rparr>)"
  by (simp add: console_error_def)

lemma await_Inr: "m w = (Inr x, w') \<Longrightarrow> await m k w = k x w'"
  by (simp add: await_def)

lemma await_Inl: "m w = (Inl e, w') \<Longrightarrow> await m k w = (Inl e, w')"
  by (simp add: await_def)

lemma seq_Inr: "m w = (Inr x, w') \<Longrightarrow> seq m k w = k w'"
  by (simp add: seq_def await_def)

lemma seq_Inl: "m w = (Inl e, w') \<Longrightarrow> seq m k w = (Inl e, w')"
  by (simp add: seq_def await_def)

lemma printResult_run:
  "printResult ttl result w =
     (Inr (), w\<lparr>console := console w @
        [ConsoleLog [Str (''\<newline>--- '' @ ttl @ '' ---'')],
         (if isArray result then
            (if array_length result = 0 then ConsoleLog [Str ''No documents found.'']
             else ConsoleLog [Json result])
          else ConsoleLog [Val result])]\<rparr>)"
  by (simp add: printResult_def seq_def await_def)

lemma driver_call_ok:
  "fault en s = None \<Longrightarrow>
   driver_call en s act w =
     (Inr (fst (act (w\<lparr>calls := calls w @ [s]\<rparr>))), snd (act (w\<lparr>calls := calls w @ [s]\<rparr>)))"
  by (simp add: driver_call_def Let_def split: prod.splits)

lemma driver_call_fault:
  "fault en s = Some e \<Longrightarrow> driver_call en s act w = (Inl e, w\<lparr>calls := calls w @ [s]\<rparr>)"
  by (simp add: driver_call_def Let_def)

lemma update_first_no_match:
  "List.find flt ds = None \<Longrightarrow> update_first flt upd ds = ds"
  by (induction ds) (auto split: if_splits)

text \<open>One statement of a task at a time, when its driver call resolves or rejects.\<close>

lemma seq_log_step:
  "seq (console_log a) k w = k (w\<lparr>console := console w @ [ConsoleLog a]\<rparr>)"
  by (simp add: seq_def await_def)

lemma print_last:
  "printResult t r w = (Inr (), w\<lparr>console := console w @ result_lines t r\<rparr>)"
  by (simp add: printResult_run result_lines_def)

lemma print_step:
  "seq (printResult t r) k w = k (w\<lparr>console := console w @ result_lines t r\<rparr>)"
  by (simp add: seq_def await_def print_last)

lemma plan_last:
  "analyzePlan t p w = (Inr (), w\<lparr>console := console w @ plan_lines t p\<rparr>)"
  by (simp add: analyzePlan_def plan_lines_def seq_def await_def done_io_def Let_def)

lemma plan_step:
  "seq (analyzePlan t p) k w = k (w\<lparr>console := console w @ plan_lines t p\<rparr>)"
  by (simp add: seq_def await_def plan_last)

lemma find_step:
  "fault en s = None \<Longrightarrow>
   await (collection_find en s c) k w = k (JArr (c (docs w))) (w\<lparr>calls := calls w @ [s]\<rparr>)"
  by (simp add: await_def collection_find_def driver_call_ok)

lemma aggregate_step:
  "fault en s = None \<Longrightarrow>
   await (aggregate en s c) k w = k (JArr (c (docs w))) (w\<lparr>calls := calls w @ [s]\<rparr>)"
  by (simp add: await_def aggregate_def driver_call_ok)

lemma findOne_step:
  "fault en s = None \<Longrightarrow>
   await (findOne en s flt) k w =
     k (case List.find flt (docs w) of None \<Rightarrow> JNull | Some b \<Rightarrow> book_doc b)
       (w\<lparr>calls := calls w @ [s]\<rparr>)"
  by (simp add: await_def findOne_def driver_call_ok)

lemma updateOne_step:
  "fault en s = None \<Longrightarrow>
   await (updateOne en s flt upd) k w =
     k (update_result flt upd (docs w))
       (w\<lparr>calls := calls w @ [s], docs := update_first flt upd (docs w)\<rparr>)"
  by (simp add: await_def updateOne_def driver_call_ok)

lemma deleteOne_step:
  "fault en s = None \<Longrightarrow>
   await (deleteOne en s flt) k w =
     k (delete_result flt (docs w))
       (w\<lparr>calls := calls w @ [s], docs := delete_first flt (docs w)\<rparr>)"
  by (simp add: await_def deleteOne_def driver_call_ok)

lemma explain_step:
  "fault en s = None \<Longrightarrow>
   await (explain en s) k w = k (plan en s) (w\<lparr>calls := calls w @ [s]\<rparr>)"
  by (simp add: await_def explain_def driver_call_ok)

lemma connect_step:
  "fault en S_connect = None \<Longrightarrow>
   seq (client_connect en) k w = k (w\<lparr>calls := calls w @ [S_connect], connected := True\<rparr>)"
  by (simp add: seq_def await_def client_connect_def driver_call_ok)

lemma find_fault_step:
  "fault en s = Some e \<Longrightarrow>
   await (collection_find en s c) k w = (Inl e, w\<lparr>calls := calls w @ [s]\<rparr>)"
  by (simp add: await_def collection_find_def driver_call_fault)

lemma aggregate_fault_step:
  "fault en s = Some e \<Longrightarrow>
   await (aggregate en s c) k w = (Inl e, w\<lparr>calls := calls w @ [s]\<rparr>)"
  by (simp add: await_def aggregate_def driver_call_fault)

lemma findOne_fault_step:
  "fault en s = Some e \<Longrightarrow>
   await (findOne en s flt) k w = (Inl e, w\<lparr>calls := calls w @ [s]\<rparr>)"
  by (simp add: await_def findOne_def driver_call_fault)

lemma updateOne_fault_step:
  "fault en s = Some e \<Longrightarrow>
   await (updateOne en s flt upd) k w = (Inl e, w\<lparr>calls := calls w @ [s]\<rparr>)"
  by (simp add: await_def updateOne_def driver_call_fault)

lemma deleteOne_fault_step:
  "fault en s = Some e \<Longrightarrow>
   await (deleteOne en s flt) k w = (Inl e, w\<lparr>calls := calls w @ [s]\<rparr>)"
  by (simp add: await_def deleteOne_def driver_call_fault)

lemma explain_fault_step:
  "fault en s = Some e \<Longrightarrow>
   await (explain en s) k w = (Inl e, w\<lparr>calls := calls w @ [s]\<rparr>)"
  by (simp add: await_def explain_def driver_call_fault)

lemma index_step:
  "seq (try_catch (await (createIndex en s name) (\<lambda>r. console_log (f r)))
          (\<lambda>e. console_error (g e))) k w =
     (case fault en s of
        None \<Rightarrow> k (w\<lparr>calls := calls w @ [s],
                     indexes := (if name \<in> set (indexes w) then indexes w
                                 else indexes w @ [name]),
                     console := console w @ [ConsoleLog (f name)]\<rparr>)
      | Some e \<Rightarrow> k (w\<lparr>calls := calls w @ [s],
                       console := console w @ [ConsoleError (g e)]\<rparr>))"
  by (cases "fault en s")
     (simp_all add: seq_def await_def try_catch_def createIndex_def driver_call_ok
        driver_call_fault)

lemmas steps = seq_log_step print_step print_last find_step aggregate_step findOne_step
  updateOne_step deleteOne_step explain_step

lemmas fault_steps = find_fault_step aggregate_fault_step findOne_fault_step
  updateOne_fault_step deleteOne_fault_step explain_fault_step

lemma await_assoc: "await (await m f) g = await m (\<lambda>x. await (f x) g)"
  by (rule ext) (simp add: await_def split: prod.splits sum.splits)

lemma seq_assoc: "seq (seq m k) k' = seq m (seq k k')"
  by (simp add: seq_def await_assoc)

lemma seq_await: "seq (await m f) k = await m (\<lambda>x. seq (f x) k)"
  by (simp add: seq_def await_assoc)

section \<open>Sorting, paging and grouping\<close>

lemma distinct_map_insort_key:
  "distinct (map f (insort_key k x xs)) = (f x \<notin> f ` set xs \<and> distinct (map f xs))"
  by (induction xs) (auto simp: set_insort_key)

lemma distinct_map_sort_key:
  "distinct (map f (sort_key k xs)) = distinct (map f xs)"
  by (induction xs) (auto simp: distinct_map_insort_key)

lemma first_seen_distinct: "distinct (first_seen ks)"
  by (simp add: first_seen_def)

lemma first_seen_set: "set (first_seen ks) = set ks"
  by (simp add: first_seen_def)

lemma insort_key_map:
  "insort_key f (g x) (map g xs) = map g (insort_key (\<lambda>y. f (g y)) x xs)"
  by (induction xs) auto

lemma sort_key_map: "sort_key f (map g xs) = map g (sort_key (\<lambda>y. f (g y)) xs)"
  by (induction xs) (auto simp: insort_key_map)

lemma sort_first_seen: "sort_key (\<lambda>k. k) (first_seen ks) = sorted_list_of_set (set ks)"
proof (rule sorted_distinct_set_unique)
  show "sorted (sort_key (\<lambda>k. k) (first_seen ks))" using sorted_sort_key [of "\<lambda>k. k" "first_seen ks"] by simp
  show "distinct (sort_key (\<lambda>k. k) (first_seen ks))" by (simp add: first_seen_distinct)
  show "sorted (sorted_list_of_set (set ks))" by simp
  show "distinct (sorted_list_of_set (set ks))" by simp
  show "set (sort_key (\<lambda>k. k) (first_seen ks)) = set (sorted_list_of_set (set ks))"
    by (simp add: first_seen_set)
qed

lemma group_count_sorted:
  "sort_key (\<lambda>(k, n). k) (map (\<lambda>(k, bs). (k, length bs)) (group_stage key ds)) =
     map (\<lambda>k. (k, length (filter (\<lambda>b. key b = k) ds))) (sorted_list_of_set (key ` set ds))"
proof -
  have "map (\<lambda>(k, bs). (k, length bs)) (group_stage key ds) =
          map (\<lambda>k. (k, length (filter (\<lambda>b. key b = k) ds))) (first_seen (map key ds))"
    by (simp add: group_stage_def)
  then show ?thesis
    by (simp add: sort_key_map sort_first_seen)
qed

lemma mod_expr_nonneg: "0 \<le> y \<Longrightarrow> y - mod_expr y 10 = 10 * (y div 10)"
  by (simp add: mod_expr_def sgn_if) presburger

lemma count_filter_key:
  "length (filter (\<lambda>b. key b = k) ds) = count_list (map key ds) k"
  by (induction ds) auto

lemma group_stage_sizes:
  "sum_list (map (\<lambda>(k, bs). length bs) (group_stage key ds)) = length ds"
proof -
  have "sum_list (map (\<lambda>(k, bs). length bs) (group_stage key ds)) =
          sum_list (map (count_list (map key ds)) (first_seen (map key ds)))"
    by (simp add: group_stage_def comp_def count_filter_key)
  also have "\<dots> = sum (count_list (map key ds)) (set (first_seen (map key ds)))"
    by (simp add: sum_list_distinct_conv_sum_set first_seen_distinct)
  also have "\<dots> = length (map key ds)"
    by (rule sum_count_set) (simp_all add: first_seen_set)
  finally show ?thesis by simp
qed

lemma sum_list_map_insort_key:
  "sum_list (map f (insort_key k x xs)) = f x + sum_list (map f xs)"
  for f :: "'a \<Rightarrow> 'b::comm_monoid_add"
  by (induction xs) (auto simp: add.left_commute)

lemma sum_list_map_sort_key:
  "sum_list (map f (sort_key k xs)) = sum_list (map f xs)"
  for f :: "'a \<Rightarrow> 'b::comm_monoid_add"
  by (induction xs) (auto simp: sum_list_map_insort_key)

lemma sum_list_map_sort_desc:
  "sum_list (map f (sort_desc k xs)) = sum_list (map f xs)"
  for f :: "'a \<Rightarrow> 'b::comm_monoid_add"
proof -
  have "sum_list (map f (rev (sort_key k (rev xs)))) = sum_list (rev (map f (sort_key k (rev xs))))"
    by (simp only: rev_map)
  also have "\<dots> = sum_list (map f (sort_key k (rev xs)))" by (simp only: sum_list_rev)
  also have "\<dots> = sum_list (map f (rev xs))" by (rule sum_list_map_sort_key)
  also have "\<dots> = sum_list (map f xs)" by (simp only: rev_map [symmetric] sum_list_rev)
  finally show ?thesis by (simp add: sort_desc_def)
qed

lemma genre_sizes: "sum_list (map (\<lambda>(k, a, n). n) (group_by_genre ds)) = length ds"
  using group_stage_sizes [of genre ds]
  by (simp add: group_by_genre_def comp_def case_prod_unfold)

lemma author_sizes: "sum_list (map (\<lambda>(k, n). n) (group_by_author ds)) = length ds"
  using group_stage_sizes [of author ds]
  by (simp add: group_by_author_def comp_def case_prod_unfold)

lemma decade_sizes: "sum_list (map (\<lambda>(k, n). n) (group_by_decade ds)) = length ds"
  using group_stage_sizes [of decade ds]
  by (simp add: group_by_decade_def comp_def case_prod_unfold)

lemma sum_list_of_nat: "sum_list (map (\<lambda>x. of_nat (f x)) xs) = (of_nat (sum_list (map f xs)) :: rat)"
  by (induction xs) auto

section \<open>Control flow\<close>

lemma attempted_append:
  "attempted en (ss @ ts) =
     attempted en ss @ (case outcome en ss of Inl e \<Rightarrow> [] | Inr u \<Rightarrow> attempted en ts)"
  by (induction ss) (auto simp: aborts_def split: option.splits)

lemma outcome_append:
  "outcome en (ss @ ts) = (case outcome en ss of Inl e \<Rightarrow> Inl e | Inr u \<Rightarrow> outcome en ts)"
  by (induction ss) (auto split: option.splits)

lemma runs_silent:
  "(\<And>w. calls (snd (m w)) = calls w) \<Longrightarrow> (\<And>w. \<exists>x. fst (m w) = Inr x) \<Longrightarrow> runs en [] m"
  unfolding runs_def
proof (intro allI conjI)
  fix w
  assume c: "\<And>w. calls (snd (m w)) = calls w" and r: "\<And>w. \<exists>x. fst (m w) = Inr x"
  show "calls (snd (m w)) = calls w @ attempted en []" using c by simp
  from r [of w] obtain x where "fst (m w) = Inr x" by blast
  then show "case fst (m w) of Inl e \<Rightarrow> outcome en [] = Inl e | Inr x \<Rightarrow> outcome en [] = Inr ()"
    by simp
qed

lemma runs_console_log: "runs en [] (console_log a)"
  by (rule runs_silent) simp_all

lemma runs_printResult: "runs en [] (printResult t r)"
  by (rule runs_silent) (simp_all add: print_last)

lemma runs_driver_call:
  "(\<And>w. calls (snd (act w)) = calls w) \<Longrightarrow> \<not> caught_locally s \<Longrightarrow>
   runs en [s] (driver_call en s act)"
  by (cases "fault en s")
     (auto simp: runs_def driver_call_ok driver_call_fault aborts_def split: prod.splits)

lemma runs_await:
  assumes m: "runs en ss m" and k: "\<And>x. runs en ts (k x)"
  shows "runs en (ss @ ts) (await m k)"
  unfolding runs_def
proof (intro allI)
  fix w
  obtain r w' where mw: "m w = (r, w')" by (cases "m w")
  from m have c: "calls w' = calls w @ attempted en ss"
    and o: "case r of Inl e \<Rightarrow> outcome en ss = Inl e | Inr x \<Rightarrow> outcome en ss = Inr ()"
    using mw by (auto simp: runs_def dest: spec [of _ w])
  show "calls (snd (await m k w)) = calls w @ attempted en (ss @ ts) \<and>
        (case fst (await m k w) of Inl e \<Rightarrow> outcome en (ss @ ts) = Inl e
         | Inr x \<Rightarrow> outcome en (ss @ ts) = Inr ())"
  proof (cases r)
    case (Inl e)
    with mw c o show ?thesis
      by (simp add: await_def attempted_append outcome_append)
  next
    case (Inr x)
    from k [of x] have "calls (snd (k x w')) = calls w' @ attempted en ts"
      and "case fst (k x w') of Inl e \<Rightarrow> outcome en ts = Inl e | Inr y \<Rightarrow> outcome en ts = Inr ()"
      by (auto simp: runs_def)
    with Inr mw c o show ?thesis
      by (simp add: await_def attempted_append outcome_append split: sum.splits)
  qed
qed

lemma runs_seq: "runs en ss m \<Longrightarrow> runs en ts k \<Longrightarrow> runs en (ss @ ts) (seq m k)"
  unfolding seq_def by (rule runs_await)

lemma runs_seq_silent: "runs en [] m \<Longrightarrow> runs en ts k \<Longrightarrow> runs en ts (seq m k)"
  using runs_seq [of en "[]" m ts k] by simp

lemma runs_await_call:
  "runs en [s] m \<Longrightarrow> (\<And>x. runs en ts (k x)) \<Longrightarrow> runs en (s # ts) (await m k)"
  using runs_await [of en "[s]" m ts k] by simp

lemma runs_seq_call:
  "runs en [s] m \<Longrightarrow> runs en ts k \<Longrightarrow> runs en (s # ts) (seq m k)"
  using runs_seq [of en "[s]" m ts k] by simp

lemma runs_collection_find: "\<not> caught_locally s \<Longrightarrow> runs en [s] (collection_find en s c)"
  by (simp add: collection_find_def runs_driver_call)

lemma runs_aggregate: "\<not> caught_locally s \<Longrightarrow> runs en [s] (aggregate en s c)"
  by (simp add: aggregate_def runs_driver_call)

lemma runs_findOne: "\<not> caught_locally s \<Longrightarrow> runs en [s] (findOne en s c)"
  by (simp add: findOne_def runs_driver_call)

lemma runs_updateOne: "\<not> caught_locally s \<Longrightarrow> runs en [s] (updateOne en s c u)"
  by (simp add: updateOne_def runs_driver_call)

lemma runs_deleteOne: "\<not> caught_locally s \<Longrightarrow> runs en [s] (deleteOne en s c)"
  by (simp add: deleteOne_def runs_driver_call)

lemma runs_explain: "\<not> caught_locally s \<Longrightarrow> runs en [s] (explain en s)"
  by (simp add: explain_def runs_driver_call)

lemma analyzePlan_calls:
  "calls (snd (analyzePlan t p w)) = calls w \<and> fst (analyzePlan t p w) = Inr ()"
  by (simp add: analyzePlan_def seq_def await_def done_io_def Let_def)

lemma runs_analyzePlan: "runs en [] (analyzePlan t p)"
  by (rule runs_silent) (simp_all add: analyzePlan_calls)

lemma runs_index:
  "caught_locally s \<Longrightarrow>
   runs en [s] (try_catch (await (createIndex en s name) (\<lambda>r. console_log (f r)))
                  (\<lambda>e. console_error (g e)))"
  by (cases "fault en s")
     (auto simp: runs_def try_catch_def await_def createIndex_def driver_call_ok
        driver_call_fault aborts_def)

lemmas runs_leaf = runs_console_log runs_printResult runs_collection_find runs_aggregate
  runs_findOne runs_updateOne runs_deleteOne runs_explain runs_analyzePlan

lemma runs_runTask2: "runs en task2_sites (runTask2 en)"
  unfolding runTask2_def task2_sites_def
  by (intro runs_seq_silent runs_await_call runs_leaf) (simp_all add: caught_locally_def)

lemma runs_runTask3: "runs en task3_sites (runTask3 en)"
  unfolding runTask3_def task3_sites_def
  by (intro runs_seq_silent runs_await_call runs_leaf) (simp_all add: caught_locally_def)

lemma runs_runTask4: "runs en task4_sites (runTask4 en)"
  unfolding runTask4_def task4_sites_def
  by (intro runs_seq_silent runs_await_call runs_leaf) (simp_all add: caught_locally_def)

lemma runs_runTask5: "runs en task5_sites (runTask5 en)"
  unfolding runTask5_def task5_sites_def
  by (intro runs_seq_silent runs_await_call runs_seq_call runs_index runs_leaf)
     (simp_all add: caught_locally_def)

lemma runs_client_connect: "runs en [S_connect] (client_connect en)"
  by (simp add: client_connect_def runs_driver_call caught_locally_def)

lemma runs_run_tasks: "runs en workflow (run_tasks en)"
  unfolding run_tasks_def workflow_def
  by (intro runs_seq_call runs_client_connect runs_seq_silent runs_console_log runs_seq
        runs_runTask2 runs_runTask3 runs_runTask4 runs_runTask5)

lemma run_tasks_trace:
  "calls (snd (run_tasks en w)) = calls w @ attempted en workflow"
  "fst (run_tasks en w) = outcome en workflow"
proof -
  from runs_run_tasks [of en]
  have a: "calls (snd (run_tasks en w)) = calls w @ attempted en workflow"
    and b: "case fst (run_tasks en w) of Inl e \<Rightarrow> outcome en workflow = Inl e
            | Inr x \<Rightarrow> outcome en workflow = Inr ()"
    unfolding runs_def by blast+
  show "calls (snd (run_tasks en w)) = calls w @ attempted en workflow" by (rule a)
  show "fst (run_tasks en w) = outcome en workflow"
    using b by (cases "fst (run_tasks en w)") simp_all
qed

lemma attempted_no_abort:
  "\<forall>t\<in>set ss. \<not> aborts en t \<Longrightarrow> attempted en ss = ss \<and> outcome en ss = Inr ()"
  by (induction ss) (auto simp: aborts_def split: option.splits)

lemma attempted_first_abort:
  "\<forall>t\<in>set pre. \<not> aborts en t \<Longrightarrow> fault en s = Some e \<Longrightarrow> \<not> caught_locally s \<Longrightarrow>
   attempted en (pre @ s # post) = pre @ [s] \<and> outcome en (pre @ s # post) = Inl e"
  by (induction pre) (auto simp: aborts_def split: option.splits)

lemma main_run:
  assumes "fault en S_close = None"
  shows "fst (main en w) = Inr ()
    \<and> calls (snd (main en w)) = calls (snd (run_tasks en w)) @ [S_close]
    \<and> console (snd (main en w)) =
        console (snd (run_tasks en w)) @
        (case fst (run_tasks en w) of
           Inl e \<Rightarrow> [ConsoleError [Str ''An error occurred:'', Err e]]
         | Inr u \<Rightarrow> []) @
        [ConsoleLog [Str ''\<newline>Connection to MongoDB closed.'']]
    \<and> connected (snd (main en w)) = False"
proof (cases "run_tasks en w")
  case (Pair r w1)
  show ?thesis
  proof (cases r)
    case (Inl e)
    with Pair assms show ?thesis
      by (simp add: main_def try_finally_def try_catch_def seq_def await_def
            client_close_def driver_call_ok)
  next
    case (Inr u)
    with Pair assms show ?thesis
      by (simp add: main_def try_finally_def try_catch_def seq_def await_def
            client_close_def driver_call_ok)
  qed
qed

lemma main_close_fault:
  assumes "fault en S_close = Some e"
  shows "fst (main en w) = Inl e
    \<and> console (snd (main en w)) =
        console (snd (run_tasks en w)) @
        (case fst (run_tasks en w) of
           Inl x \<Rightarrow> [ConsoleError [Str ''An error occurred:'', Err x]]
         | Inr u \<Rightarrow> [])
    \<and> console (snd (script en w)) = console (snd (main en w)) @ [ConsoleError [Err e]]"
proof (cases "run_tasks en w")
  case (Pair r w1)
  show ?thesis
  proof (cases r)
    case (Inl x)
    with Pair assms show ?thesis
      by (simp add: script_def main_def try_finally_def try_catch_def seq_def await_def
            client_close_def driver_call_fault)
  next
    case (Inr u)
    with Pair assms show ?thesis
      by (simp add: script_def main_def try_finally_def try_catch_def seq_def await_def
            client_close_def driver_call_fault)
  qed
qed

lemma not_in_result_lines:
  "ConsoleError a \<notin> set (result_lines t r)"
  "ConsoleLog [Str (CHR ''\<newline>'' # CHR ''C'' # s)] \<notin> set (result_lines t r)"
  by (simp_all add: result_lines_def)

lemma not_in_plan_lines:
  "ConsoleError a \<notin> set (plan_lines t p)"
  "ConsoleLog [Str (CHR ''\<newline>'' # CHR ''C'' # s)] \<notin> set (plan_lines t p)"
  by (simp_all add: plan_lines_def)

lemma quiet_run:
  assumes "\<And>s. s \<noteq> S_close \<Longrightarrow> fault en s = None"
  shows "fst (run_tasks en w) = Inr ()"
    and "ConsoleError a \<in> set (console (snd (run_tasks en w))) \<longleftrightarrow>
         ConsoleError a \<in> set (console w)"
    and "ConsoleLog [Str (CHR ''\<newline>'' # CHR ''C'' # s)] \<in> set (console (snd (run_tasks en w)))
         \<longleftrightarrow> ConsoleLog [Str (CHR ''\<newline>'' # CHR ''C'' # s)] \<in> set (console w)"
  by (simp_all add: run_tasks_def runTask2_def runTask3_def runTask4_def runTask5_def
        connect_step steps index_step plan_step plan_last assms seq_assoc seq_await
        not_in_result_lines not_in_plan_lines)

lemma runTask5_trace:
  "calls (snd (runTask5 en w)) =
     calls w @ [S_titleIndexResult, S_compoundIndexResult, S_explainTitleSearch] @
       (if fault en S_explainTitleSearch = None then [S_explainCompoundSearch] else [])"
proof -
  from runs_runTask5 [of en]
  have "calls (snd (runTask5 en w)) = calls w @ attempted en task5_sites"
    unfolding runs_def by blast
  then show ?thesis
    by (simp add: task5_sites_def aborts_def caught_locally_def)
qed

lemma runTask5_outcome:
  "fault en S_explainTitleSearch = None \<Longrightarrow> fault en S_explainCompoundSearch = None \<Longrightarrow>
   fst (runTask5 en w) = Inr ()"
proof -
  assume a: "fault en S_explainTitleSearch = None" "fault en S_explainCompoundSearch = None"
  from runs_runTask5 [of en]
  have "case fst (runTask5 en w) of Inl e \<Rightarrow> outcome en task5_sites = Inl e
        | Inr x \<Rightarrow> outcome en task5_sites = Inr ()"
    unfolding runs_def by blast
  moreover have "outcome en task5_sites = Inr ()"
    using a by (simp add: task5_sites_def caught_locally_def split: option.splits)
  ultimately show ?thesis by (cases "fst (runTask5 en w)") simp_all
qed

lemma runTask5_title_line:
  "fault en S_titleIndexResult = Some e \<Longrightarrow>
   console (snd (runTask5 en w)) ! (length (console w) + 2) =
     ConsoleError [Str ''Error creating title index:'', Str (message e)]"
  by (cases "fault en S_compoundIndexResult"; cases "fault en S_explainTitleSearch";
      cases "fault en S_explainCompoundSearch")
     (simp_all add: runTask5_def index_step steps fault_steps plan_step plan_last
        nth_append)

lemma runTask5_compound_line:
  "fault en S_compoundIndexResult = Some e \<Longrightarrow>
   console (snd (runTask5 en w)) ! (length (console w) + 3) =
     ConsoleError [Str ''Error creating compound index:'', Str (message e)]"
  by (cases "fault en S_titleIndexResult"; cases "fault en S_explainTitleSearch";
      cases "fault en S_explainCompoundSearch")
     (simp_all add: runTask5_def index_step steps fault_steps plan_step plan_last
        nth_append)

section \<open>Effects on the collection\<close>

lemma find_update_first:
  "List.find flt ds = Some b \<Longrightarrow> flt (upd b) \<Longrightarrow>
   List.find flt (update_first flt upd ds) = Some (upd b)"
  by (induction ds) (auto split: if_splits)

lemma update_first_twice:
  "(\<And>b. flt b \<Longrightarrow> flt (upd b)) \<Longrightarrow> (\<And>b. upd (upd b) = upd b) \<Longrightarrow>
   update_first flt upd (update_first flt upd ds) = update_first flt upd ds"
  by (induction ds) auto

lemma is_hobbit_set_price [simp]: "is_hobbit (set_price b) = is_hobbit b"
  by (simp add: is_hobbit_def set_price_def)

lemma set_price_twice [simp]: "set_price (set_price b) = set_price b"
  by (simp add: set_price_def)

lemma filter_empty_map_if:
  "filter flt ds = [] \<Longrightarrow> map (\<lambda>b. if flt b then upd b else b) ds = ds"
  by (induction ds) (auto split: if_splits)

lemma update_first_unique:
  "length (filter flt ds) = 1 \<Longrightarrow>
   update_first flt upd ds = map (\<lambda>b. if flt b then upd b else b) ds"
  by (induction ds) (auto simp: filter_empty_map_if)

lemma filter_empty_filter_not:
  "filter flt ds = [] \<Longrightarrow> filter (\<lambda>b. \<not> flt b) ds = ds"
  by (induction ds) (auto split: if_splits)

lemma delete_first_unique:
  "length (filter flt ds) = 1 \<Longrightarrow> delete_first flt ds = filter (\<lambda>b. \<not> flt b) ds"
  by (induction ds) (auto simp: filter_empty_filter_not)

lemma filter_map_invariant:
  "(\<And>x. P (f x) = P x) \<Longrightarrow> filter P (map f xs) = map f (filter P xs)"
  by (induction xs) auto

lemma await_frame:
  assumes m: "\<And>w. g (snd (m w)) = g w"
    and k: "\<And>x w. g (snd (k x w)) = g w"
  shows "g (snd (await m k w)) = g w"
proof (cases "m w")
  case (Pair r w')
  have w': "g w' = g w" using m [of w] Pair by simp
  show ?thesis
  proof (cases r)
    case (Inl e)
    with Pair w' show ?thesis by (simp add: await_def)
  next
    case (Inr x)
    with Pair w' k [of x w'] show ?thesis by (simp add: await_def)
  qed
qed

lemma driver_call_frame:
  "(\<And>w. g (snd (act w)) = g w) \<Longrightarrow> (\<And>w c. g (w\<lparr>calls := c\<rparr>) = g w) \<Longrightarrow>
   g (snd (driver_call en s act w)) = g w"
  by (cases "fault en s") (simp_all add: driver_call_ok driver_call_fault)

lemmas await_docs = await_frame [where g = docs]

lemmas await_indexes = await_frame [where g = indexes]

lemma collection_find_docs: "docs (snd (collection_find en s c w)) = docs w"
  by (simp add: collection_find_def driver_call_frame)

lemma aggregate_docs: "docs (snd (aggregate en s c w)) = docs w"
  by (simp add: aggregate_def driver_call_frame)

lemma printResult_docs: "docs (snd (printResult t r w)) = docs w"
  by (simp add: printResult_run)

lemma console_log_docs: "docs (snd (console_log a w)) = docs w"
  by simp

lemma collection_find_indexes: "indexes (snd (collection_find en s c w)) = indexes w"
  by (simp add: collection_find_def driver_call_frame)

lemma aggregate_indexes: "indexes (snd (aggregate en s c w)) = indexes w"
  by (simp add: aggregate_def driver_call_frame)

lemma printResult_indexes: "indexes (snd (printResult t r w)) = indexes w"
  by (simp add: printResult_run)

lemma console_log_indexes: "indexes (snd (console_log a w)) = indexes w"
  by simp

lemmas docs_frame = await_docs collection_find_docs aggregate_docs printResult_docs
  console_log_docs

lemmas indexes_frame = await_indexes collection_find_indexes aggregate_indexes
  printResult_indexes console_log_indexes

lemma runTask3_docs: "docs (snd (runTask3 en w)) = docs w"
  unfolding runTask3_def seq_def by (intro docs_frame)

lemma runTask4_docs: "docs (snd (runTask4 en w)) = docs w"
  unfolding runTask4_def seq_def by (intro docs_frame)

lemma runTask3_indexes: "indexes (snd (runTask3 en w)) = indexes w"
  unfolding runTask3_def seq_def by (intro indexes_frame)

lemma runTask4_indexes: "indexes (snd (runTask4 en w)) = indexes w"
  unfolding runTask4_def seq_def by (intro indexes_frame)

lemma runTask2_ok:
  assumes "fault en S_fictionBooks = None" "fault en S_recentBooks = None"
    "fault en S_orwellBooks = None" "fault en S_updateResult = None"
    "fault en S_updatedHobbit = None" "fault en S_deleteResult = None"
  shows "fst (runTask2 en w) = Inr () \<and> docs (snd (runTask2 en w)) =
          delete_first is_moby_dick (update_first is_hobbit set_price (docs w))"
  using assms by (simp add: runTask2_def steps)

section \<open>printResult: empty and non-empty result sets\<close>

text \<open>
  Claim C9. A result set is an array. For the empty array \<open>printResult\<close> prints the
  section marker and then the notice \<open>No documents found.\<close>; for a non-empty array
  it prints the section marker and then \<open>JSON.stringify(result, null, 2)\<close>, the
  pretty-printed dump of the records. It never throws.
\<close>

theorem printResult_empty_or_dump:
  "printResult ttl (JArr []) w =
     (Inr (), w\<lparr>console := console w @
        [ConsoleLog [Str (''\<newline>--- '' @ ttl @ '' ---'')],
         ConsoleLog [Str ''No documents found.'']]\<rparr>)
   \<and> printResult ttl (JArr (x # xs)) w =
     (Inr (), w\<lparr>console := console w @
        [ConsoleLog [Str (''\<newline>--- '' @ ttl @ '' ---'')],
         ConsoleLog [Json (JArr (x # xs))]]\<rparr>)"
  by (simp add: printResult_run isArray_def array_length_def)

section \<open>printResult: results that are not arrays\<close>

text \<open>
  Claim C10. The notice is reserved for arrays: a result that is not an array (the
  update result, the delete result, the single document or \<open>null\<close> of \<open>findOne\<close>)
  is handed to the console as it is. So when no document has the title
  \<open>The Hobbit\<close>, the tenth and eleventh lines Task 2 prints are the marker of the
  verification step and the value \<open>null\<close>, not the notice.
\<close>

theorem printResult_non_array:
  "(\<not> isArray result \<longrightarrow>
      printResult ttl result w =
        (Inr (), w\<lparr>console := console w @
           [ConsoleLog [Str (''\<newline>--- '' @ ttl @ '' ---'')],
            ConsoleLog [Val result]]\<rparr>))
   \<and> (List.find is_hobbit (docs w) = None
        \<and> fault en S_fictionBooks = None \<and> fault en S_recentBooks = None
        \<and> fault en S_orwellBooks = None \<and> fault en S_updateResult = None
        \<and> fault en S_updatedHobbit = None \<longrightarrow>
      take 2 (drop (length (console w) + 9) (console (snd (runTask2 en w)))) =
        [ConsoleLog [Str (''\<newline>--- Task 2.4: Verifying update for 'The Hobbit''
                          @ [CHR 0x27] @ '' ---'')],
         ConsoleLog [Val JNull]])"
proof (intro conjI impI)
  assume "\<not> isArray result"
  then show "printResult ttl result w =
        (Inr (), w\<lparr>console := console w @
           [ConsoleLog [Str (''\<newline>--- '' @ ttl @ '' ---'')],
            ConsoleLog [Val result]]\<rparr>)"
    by (simp add: printResult_run)
next
  assume "List.find is_hobbit (docs w) = None
        \<and> fault en S_fictionBooks = None \<and> fault en S_recentBooks = None
        \<and> fault en S_orwellBooks = None \<and> fault en S_updateResult = None
        \<and> fault en S_updatedHobbit = None"
  then show "take 2 (drop (length (console w) + 9) (console (snd (runTask2 en w)))) =
        [ConsoleLog [Str (''\<newline>--- Task 2.4: Verifying update for 'The Hobbit''
                          @ [CHR 0x27] @ '' ---'')],
         ConsoleLog [Val JNull]]"
    by (cases "fault en S_deleteResult")
       (simp_all add: runTask2_def steps fault_steps result_lines_def isArray_def
          update_first_no_match)
qed

theorem printResult_non_array_witness:
  "\<not> isArray JNull
   \<and> printResult ''Re-read'' JNull (fresh_world orwell_books) =
        (Inr (), (fresh_world orwell_books)\<lparr>console := console (fresh_world orwell_books) @
           [ConsoleLog [Str (''\<newline>--- '' @ ''Re-read'' @ '' ---'')],
            ConsoleLog [Val JNull]]\<rparr>)
   \<and> List.find is_hobbit (docs (fresh_world orwell_books)) = None
   \<and> take 2 (drop (length (console (fresh_world orwell_books)) + 9)
        (console (snd (runTask2 no_faults (fresh_world orwell_books))))) =
        [ConsoleLog [Str (''\<newline>--- Task 2.4: Verifying update for 'The Hobbit''
                          @ [CHR 0x27] @ '' ---'')],
         ConsoleLog [Val JNull]]"
  using printResult_non_array [of JNull "''Re-read''" "fresh_world orwell_books" no_faults]
  by (simp add: isArray_def fresh_world_def orwell_books_def mk_book_def is_hobbit_def
        no_faults_def)

section \<open>analyzePlan\<close>

text \<open>
  Claim C1. \<open>analyzePlan\<close> looks at the top-level execution stage and, when that
  stage has an input stage, at that input stage and no deeper. It prints the marker,
  the elapsed time, the number of documents examined and the chain
  \<open>top -> scan\<close> of stage names, and then classifies the scan stage: the index-scan
  line for \<open>IXSCAN\<close>, the collection-scan line for \<open>COLLSCAN\<close>, no line for any
  other stage name. The first equation is a plan whose top stage has no input stage,
  the second a plan whose top stage wraps one.
\<close>

theorem analyzePlan_classifies:
  "analyzePlan ttl
     \<lparr>executionStats = \<lparr>executionTimeMillis = t, totalDocsExamined = d,
                         executionStages = Stage outer None\<rparr>\<rparr> w =
     (Inr (), w\<lparr>console := console w @
        [ConsoleLog [Str (''\<newline>--- '' @ ttl @ '' ---'')],
         ConsoleLog [Str (''Execution Time: '' @ show_nat t @ ''ms'')],
         ConsoleLog [Str (''Documents Examined: '' @ show_nat d)],
         ConsoleLog [Str (''Winning Plan Stage: '' @ outer @ '' -> '' @ outer)]] @
        (if outer = ''IXSCAN'' then
           [ConsoleLog
              [Str ''Analysis: Great! The query used an efficient index scan (IXSCAN).'']]
         else if outer = ''COLLSCAN'' then
           [ConsoleLog
              [Str ''Analysis: The query used a collection scan (COLLSCAN). An index was not used.'']]
         else [])\<rparr>)
   \<and> analyzePlan ttl
     \<lparr>executionStats = \<lparr>executionTimeMillis = t, totalDocsExamined = d,
                         executionStages = Stage outer (Some (Stage inner deeper))\<rparr>\<rparr> w =
     (Inr (), w\<lparr>console := console w @
        [ConsoleLog [Str (''\<newline>--- '' @ ttl @ '' ---'')],
         ConsoleLog [Str (''Execution Time: '' @ show_nat t @ ''ms'')],
         ConsoleLog [Str (''Documents Examined: '' @ show_nat d)],
         ConsoleLog [Str (''Winning Plan Stage: '' @ outer @ '' -> '' @ inner)]] @
        (if inner = ''IXSCAN'' then
           [ConsoleLog
              [Str ''Analysis: Great! The query used an efficient index scan (IXSCAN).'']]
         else if inner = ''COLLSCAN'' then
           [ConsoleLog
              [Str ''Analysis: The query used a collection scan (COLLSCAN). An index was not used.'']]
         else [])\<rparr>)"
  by (simp add: plan_last plan_lines_def scanStage_def)

section \<open>Pagination\<close>

text \<open>
  Claim C2. Page 1 followed by page 2 is the first ten entries of the sequence sorted
  ascending by \<open>published_year\<close>: as printed (projected to title and year), and as
  the documents the two cursors select. Nothing of the first ten is left out and the
  order is kept; and since the identifiers of a collection are distinct, no document
  is on both pages.
\<close>

theorem pagination_first_ten:
  "page1 ds @ page2 ds =
     take 10 (map (project [''title'', ''published_year'']) (sort_key published_year ds))
   \<and> page1_docs ds @ page2_docs ds = take 10 (sort_key published_year ds)
   \<and> (distinct (map book_id ds) \<longrightarrow>
        distinct (map book_id (page1_docs ds @ page2_docs ds)))"
proof -
  let ?s = "sort_key published_year ds"
  have p1: "page1_docs ds = take 5 ?s"
    by (simp add: page1_docs_def limit_def skip_def sort_asc_def find_docs_def)
  have p2: "page2_docs ds = take 5 (drop 5 ?s)"
    by (simp add: page2_docs_def limit_def skip_def sort_asc_def find_docs_def)
  have cat: "page1_docs ds @ page2_docs ds = take 10 ?s"
    using take_add [of 5 5 ?s] by (simp add: p1 p2)
  have "page1 ds @ page2 ds =
          map (project [''title'', ''published_year'']) (page1_docs ds @ page2_docs ds)"
    by (simp add: page1_def page2_def)
  then have pr: "page1 ds @ page2 ds =
     take 10 (map (project [''title'', ''published_year'']) ?s)"
    by (simp only: cat take_map)
  have "distinct (map book_id (take 10 ?s))" if "distinct (map book_id ds)"
  proof -
    have "distinct (map book_id ?s)" using that by (simp add: distinct_map_sort_key)
    then have "distinct (take 10 (map book_id ?s))" by (rule distinct_take)
    then show ?thesis by (simp add: take_map)
  qed
  with cat pr show ?thesis by simp
qed

theorem pagination_first_ten_witness:
  "distinct (map book_id sample_books)
   \<and> distinct (map book_id (page1_docs sample_books @ page2_docs sample_books))"
  using pagination_first_ten [of sample_books]
  by (simp add: sample_books_def mk_book_def)

section \<open>Decade buckets\<close>

text \<open>
  Claim C3. The decade pipeline returns one record per bucket key
  \<open>published_year - (published_year mod 10)\<close> that occurs in the collection, in
  ascending order of the key (\<open>sorted_list_of_set\<close> lists a finite set in ascending
  order, each element once). Each record has exactly two fields: \<open>count\<close>, the
  number of documents of the bucket, and \<open>decade\<close>, the key; there is no \<open>_id\<close>.
  \<open>mod\<close> is the store's \<open>$mod\<close>; for a year that is not negative the key is the
  year rounded down to a multiple of ten (lemma \<open>mod_expr_nonneg\<close>).
\<close>

theorem booksByDecade_buckets:
  "booksByDecade ds =
     map (\<lambda>k. JObj [(''count'', JNum (of_nat (length (filter
                        (\<lambda>b. published_year b - mod_expr (published_year b) 10 = k) ds)))),
                    (''decade'', JNum (of_int k))])
       (sorted_list_of_set
          ((\<lambda>b. published_year b - mod_expr (published_year b) 10) ` set ds))"
proof -
  have d: "decade = (\<lambda>b. published_year b - mod_expr (published_year b) 10)"
    by (rule ext) (simp add: decade_def)
  show ?thesis
    unfolding booksByDecade_def group_by_decade_def group_count_sorted
    by (simp add: d)
qed

section \<open>Group counts\<close>

text \<open>
  Claim C4. In each of the three groupings of Task 4 the counts of the groups add up
  to the number of documents in the collection. This holds for the groups the
  \<open>$group\<close> stage forms (by genre, by author, by decade), and for the records the
  genre and the decade pipeline return (\<open>bookCount\<close>, \<open>count\<close>), whose later
  stages only reorder and rename. The author pipeline goes on to keep the first group
  only (\<open>$limit: 1\<close>); the sum is over the groups before that cut.
\<close>

theorem group_counts_sum_to_total:
  "sum_list (map (\<lambda>(k, a, n). n) (group_by_genre ds)) = length ds
   \<and> sum_list (map (\<lambda>(k, n). n) (group_by_author ds)) = length ds
   \<and> sum_list (map (\<lambda>(k, n). n) (group_by_decade ds)) = length ds
   \<and> sum_list (map (num_field ''bookCount'') (avgPriceByGenre ds)) = of_nat (length ds)
   \<and> sum_list (map (num_field ''count'') (booksByDecade ds)) = of_nat (length ds)"
proof -
  have "sum_list (map (num_field ''bookCount'') (avgPriceByGenre ds)) =
          sum_list (map (\<lambda>x. of_nat (snd (snd x))) (group_by_genre ds))"
    by (simp add: avgPriceByGenre_def comp_def case_prod_unfold num_field_def
          sum_list_map_sort_desc)
  also have "\<dots> = of_nat (sum_list (map (\<lambda>x. snd (snd x)) (group_by_genre ds)))"
    by (rule sum_list_of_nat)
  also have "\<dots> = of_nat (length ds)"
    using genre_sizes [of ds] by (simp add: case_prod_unfold)
  finally have g: "sum_list (map (num_field ''bookCount'') (avgPriceByGenre ds)) =
                     of_nat (length ds)" .
  have "sum_list (map (num_field ''count'') (booksByDecade ds)) =
          sum_list (map (\<lambda>x. of_nat (snd x)) (group_by_decade ds))"
    by (simp add: booksByDecade_def comp_def case_prod_unfold num_field_def
          sum_list_map_sort_key)
  also have "\<dots> = of_nat (sum_list (map snd (group_by_decade ds)))"
    by (rule sum_list_of_nat)
  also have "\<dots> = of_nat (length ds)"
    using decade_sizes [of ds] by (simp add: case_prod_unfold)
  finally have d: "sum_list (map (num_field ''count'') (booksByDecade ds)) =
                     of_nat (length ds)" .
  show ?thesis
    by (simp only: genre_sizes author_sizes decade_sizes g d simp_thms)
qed

section \<open>Update and re-read\<close>

text \<open>
  Claim C5. When the collection contains a document titled \<open>The Hobbit\<close>, the
  update of Task 2 followed by the re-read of Task 2 returns a document with that
  title whose price is 15.99, the value written. The re-read changes nothing, and
  applying the same update once more leaves the collection as it is, so every later
  read returns what it returned before.
\<close>

theorem update_then_reread:
  assumes "h \<in> set (docs w)" and "title h = ''The Hobbit''"
    and "fault en S_updateResult = None" and "fault en S_updatedHobbit = None"
  shows "\<exists>u b w1 w2.
      updateOne en S_updateResult is_hobbit set_price w = (Inr u, w1)
    \<and> findOne en S_updatedHobbit is_hobbit w1 = (Inr (book_doc b), w2)
    \<and> title b = ''The Hobbit'' \<and> price b = 1599 / 100
    \<and> docs w2 = docs w1
    \<and> docs (snd (updateOne en S_updateResult is_hobbit set_price w2)) = docs w2"
proof -
  from assms(1,2) have "\<exists>x. x \<in> set (docs w) \<and> is_hobbit x"
    by (auto simp: is_hobbit_def)
  then have "List.find is_hobbit (docs w) \<noteq> None"
    by (simp add: find_None_iff)
  then obtain b0 where b0: "List.find is_hobbit (docs w) = Some b0" by auto
  then have hb: "is_hobbit b0" by (auto simp: find_Some_iff)
  let ?w1 = "w\<lparr>calls := calls w @ [S_updateResult],
                docs := update_first is_hobbit set_price (docs w)\<rparr>"
  let ?w2 = "?w1\<lparr>calls := calls ?w1 @ [S_updatedHobbit]\<rparr>"
  have f: "List.find is_hobbit (docs ?w1) = Some (set_price b0)"
    using find_update_first [OF b0, of set_price] hb by simp
  have 1: "updateOne en S_updateResult is_hobbit set_price w =
             (Inr (update_result is_hobbit set_price (docs w)), ?w1)"
    using assms(3) by (simp add: updateOne_def driver_call_ok)
  have 2: "findOne en S_updatedHobbit is_hobbit ?w1 = (Inr (book_doc (set_price b0)), ?w2)"
    using assms(4) f by (simp add: findOne_def driver_call_ok)
  have 3: "title (set_price b0) = ''The Hobbit'' \<and> price (set_price b0) = 1599 / 100"
    using hb by (simp add: is_hobbit_def set_price_def)
  have 4: "docs (snd (updateOne en S_updateResult is_hobbit set_price ?w2)) = docs ?w2"
    using assms(3) by (simp add: updateOne_def driver_call_ok update_first_twice)
  have 5: "docs ?w2 = docs ?w1" by simp
  from 1 2 3 4 5 show ?thesis by blast
qed

theorem update_then_reread_witness:
  "sample_books ! 4 \<in> set (docs (fresh_world sample_books))
   \<and> title (sample_books ! 4) = ''The Hobbit''
   \<and> price (sample_books ! 4) = 25 / 2
   \<and> (\<exists>u b w1 w2.
      updateOne no_faults S_updateResult is_hobbit set_price (fresh_world sample_books)
        = (Inr u, w1)
    \<and> findOne no_faults S_updatedHobbit is_hobbit w1 = (Inr (book_doc b), w2)
    \<and> title b = ''The Hobbit'' \<and> price b = 1599 / 100
    \<and> docs w2 = docs w1
    \<and> docs (snd (updateOne no_faults S_updateResult is_hobbit set_price w2)) = docs w2)"
proof -
  have a: "sample_books ! 4 \<in> set (docs (fresh_world sample_books))"
    by (simp add: fresh_world_def sample_books_def)
  have b: "title (sample_books ! 4) = ''The Hobbit''"
    by (simp add: sample_books_def mk_book_def)
  have c: "price (sample_books ! 4) = 25 / 2"
    by (simp add: sample_books_def mk_book_def)
  have d: "fault no_faults S_updateResult = None" "fault no_faults S_updatedHobbit = None"
    by (simp_all add: no_faults_def)
  from a b c update_then_reread [OF a b d] show ?thesis by blast
qed

section \<open>What Task 2 changes, and what Tasks 3 and 4 leave alone\<close>

text \<open>
  Claim C6. Let exactly one document be titled \<open>The Hobbit\<close> and exactly one
  \<open>Moby Dick\<close>, and let Task 2 run with none of its driver calls failing. Then
  Task 2 completes; the collection afterwards is the old one without the
  \<open>Moby Dick\<close> document and with the price of the \<open>The Hobbit\<close> document set to
  15.99, every other document and field as before and in the same order, so nothing
  is created; it has one document less; and a find for \<open>Moby Dick\<close> is empty.
  Tasks 3 and 4 never change the documents or the indexes, whatever the environment
  does.
\<close>

theorem task2_frame:
  assumes "length (filter (\<lambda>b. title b = ''The Hobbit'') (docs w)) = 1"
    and "length (filter (\<lambda>b. title b = ''Moby Dick'') (docs w)) = 1"
    and "fault en S_fictionBooks = None" "fault en S_recentBooks = None"
      "fault en S_orwellBooks = None" "fault en S_updateResult = None"
      "fault en S_updatedHobbit = None" "fault en S_deleteResult = None"
  shows "fst (runTask2 en w) = Inr ()
    \<and> docs (snd (runTask2 en w)) =
        map (\<lambda>b. if title b = ''The Hobbit'' then b\<lparr>price := 1599 / 100\<rparr> else b)
          (filter (\<lambda>b. title b \<noteq> ''Moby Dick'') (docs w))
    \<and> length (docs (snd (runTask2 en w))) + 1 = length (docs w)
    \<and> find_docs (\<lambda>b. title b = ''Moby Dick'') (docs (snd (runTask2 en w))) = []
    \<and> (\<forall>en' w'. docs (snd (runTask3 en' w')) = docs w'
                \<and> indexes (snd (runTask3 en' w')) = indexes w')
    \<and> (\<forall>en' w'. docs (snd (runTask4 en' w')) = docs w'
                \<and> indexes (snd (runTask4 en' w')) = indexes w')"
proof -
  let ?upd = "\<lambda>b. if title b = ''The Hobbit'' then b\<lparr>price := 1599 / 100\<rparr> else b"
  let ?moby = "\<lambda>b. title b = ''Moby Dick''"
  have h: "is_hobbit = (\<lambda>b. title b = ''The Hobbit'')"
    and m: "is_moby_dick = ?moby"
    by (simp_all add: fun_eq_iff is_hobbit_def is_moby_dick_def)
  have u: "update_first is_hobbit set_price (docs w) = map ?upd (docs w)"
    using update_first_unique [of is_hobbit "docs w" set_price] assms(1)
    by (simp add: h set_price_def)
  have fm: "filter ?moby (map ?upd ds) = map ?upd (filter ?moby ds)" for ds
    by (rule filter_map_invariant) simp
  have fn: "filter (\<lambda>b. \<not> ?moby b) (map ?upd ds) = map ?upd (filter (\<lambda>b. \<not> ?moby b) ds)" for ds
    by (rule filter_map_invariant) simp
  have "length (filter ?moby (map ?upd (docs w))) = 1"
    using assms(2) by (simp only: fm length_map)
  then have "delete_first ?moby (map ?upd (docs w)) =
               filter (\<lambda>b. \<not> ?moby b) (map ?upd (docs w))"
    by (rule delete_first_unique)
  then have d: "delete_first is_moby_dick (map ?upd (docs w)) =
                  map ?upd (filter (\<lambda>b. title b \<noteq> ''Moby Dick'') (docs w))"
    by (simp only: fn m)
  note ok = runTask2_ok [OF assms(3-8), of w]
  have docs': "docs (snd (runTask2 en w)) =
                 map ?upd (filter (\<lambda>b. title b \<noteq> ''Moby Dick'') (docs w))"
    using ok by (simp only: u d)
  have "length (filter ?moby (docs w)) + length (filter (\<lambda>b. \<not> ?moby b) (docs w)) =
          length (docs w)"
    by (rule sum_length_filter_compl)
  then have len: "length (docs (snd (runTask2 en w))) + 1 = length (docs w)"
    using assms(2) by (simp add: docs')
  have gone: "find_docs ?moby (docs (snd (runTask2 en w))) = []"
    by (simp add: docs' find_docs_def fm)
  from ok docs' len gone show ?thesis
    by (simp add: runTask3_docs runTask4_docs runTask3_indexes runTask4_indexes)
qed

theorem task2_frame_witness:
  "length (filter (\<lambda>b. title b = ''The Hobbit'') (docs (fresh_world sample_books))) = 1
   \<and> length (filter (\<lambda>b. title b = ''Moby Dick'') (docs (fresh_world sample_books))) = 1
   \<and> fst (runTask2 no_faults (fresh_world sample_books)) = Inr ()
   \<and> docs (snd (runTask2 no_faults (fresh_world sample_books))) =
        map (\<lambda>b. if title b = ''The Hobbit'' then b\<lparr>price := 1599 / 100\<rparr> else b)
          (filter (\<lambda>b. title b \<noteq> ''Moby Dick'') (docs (fresh_world sample_books)))
   \<and> length (docs (snd (runTask2 no_faults (fresh_world sample_books)))) + 1 =
        length (docs (fresh_world sample_books))
   \<and> find_docs (\<lambda>b. title b = ''Moby Dick'')
        (docs (snd (runTask2 no_faults (fresh_world sample_books)))) = []"
proof -
  have a: "length (filter (\<lambda>b. title b = ''The Hobbit'') (docs (fresh_world sample_books))) = 1"
    by (simp add: fresh_world_def sample_books_def mk_book_def)
  have b: "length (filter (\<lambda>b. title b = ''Moby Dick'') (docs (fresh_world sample_books))) = 1"
    by (simp add: fresh_world_def sample_books_def mk_book_def)
  have f: "fault no_faults s = None" for s by (simp add: no_faults_def)
  from a b task2_frame [OF a b f f f f f f] show ?thesis by (intro conjI) blast+
qed

section \<open>Index creation failures stay local\<close>

text \<open>
  Claim C7. When the creation of the title index fails, the third line Task 5 prints
  is the error line of that creation site with the failure's message; when the
  creation of the compound index fails, the fourth line is the error line of that
  site. In either case, and in every other, Task 5 issues both index creations and
  then the first \<open>explain\<close>: a failed creation stops nothing. When the two
  \<open>explain\<close> calls succeed, Task 5 runs to its end, whatever the index creations
  did.
\<close>

theorem index_failures_are_local:
  "(fault en S_titleIndexResult = Some e \<longrightarrow>
      console (snd (runTask5 en w)) ! (length (console w) + 2) =
        ConsoleError [Str ''Error creating title index:'', Str (message e)])
   \<and> (fault en S_compoundIndexResult = Some e \<longrightarrow>
      console (snd (runTask5 en w)) ! (length (console w) + 3) =
        ConsoleError [Str ''Error creating compound index:'', Str (message e)])
   \<and> take 3 (drop (length (calls w)) (calls (snd (runTask5 en w)))) =
        [S_titleIndexResult, S_compoundIndexResult, S_explainTitleSearch]
   \<and> (fault en S_explainTitleSearch = None \<and> fault en S_explainCompoundSearch = None \<longrightarrow>
        fst (runTask5 en w) = Inr ()
      \<and> calls (snd (runTask5 en w)) =
          calls w @ [S_titleIndexResult, S_compoundIndexResult,
                     S_explainTitleSearch, S_explainCompoundSearch])"
proof (intro conjI impI)
  assume "fault en S_titleIndexResult = Some e"
  then show "console (snd (runTask5 en w)) ! (length (console w) + 2) =
        ConsoleError [Str ''Error creating title index:'', Str (message e)]"
    by (rule runTask5_title_line)
next
  assume "fault en S_compoundIndexResult = Some e"
  then show "console (snd (runTask5 en w)) ! (length (console w) + 3) =
        ConsoleError [Str ''Error creating compound index:'', Str (message e)]"
    by (rule runTask5_compound_line)
next
  show "take 3 (drop (length (calls w)) (calls (snd (runTask5 en w)))) =
        [S_titleIndexResult, S_compoundIndexResult, S_explainTitleSearch]"
    by (simp add: runTask5_trace)
next
  assume a: "fault en S_explainTitleSearch = None \<and> fault en S_explainCompoundSearch = None"
  then show "fst (runTask5 en w) = Inr ()" by (simp add: runTask5_outcome)
  from a show "calls (snd (runTask5 en w)) =
          calls w @ [S_titleIndexResult, S_compoundIndexResult,
                     S_explainTitleSearch, S_explainCompoundSearch]"
    by (simp add: runTask5_trace)
qed

theorem index_failures_are_local_witness:
  "fault (fault_at S_titleIndexResult ''no space'') S_titleIndexResult =
     Some (MongoError ''no space'')
   \<and> console (snd (runTask5 (fault_at S_titleIndexResult ''no space'')
                     (fresh_world sample_books))) ! 2 =
        ConsoleError [Str ''Error creating title index:'', Str ''no space'']
   \<and> calls (snd (runTask5 (fault_at S_titleIndexResult ''no space'')
                   (fresh_world sample_books))) =
        [S_titleIndexResult, S_compoundIndexResult,
         S_explainTitleSearch, S_explainCompoundSearch]
   \<and> fst (runTask5 (fault_at S_titleIndexResult ''no space'')
             (fresh_world sample_books)) = Inr ()
   \<and> fault (fault_at S_compoundIndexResult ''no space'') S_compoundIndexResult =
     Some (MongoError ''no space'')
   \<and> console (snd (runTask5 (fault_at S_compoundIndexResult ''no space'')
                     (fresh_world sample_books))) ! 3 =
        ConsoleError [Str ''Error creating compound index:'', Str ''no space'']"
proof -
  let ?t = "fault_at S_titleIndexResult ''no space''"
  let ?c = "fault_at S_compoundIndexResult ''no space''"
  let ?w = "fresh_world sample_books"
  have t: "fault ?t S_titleIndexResult = Some (MongoError ''no space'')"
    and te: "fault ?t S_explainTitleSearch = None \<and> fault ?t S_explainCompoundSearch = None"
    and c: "fault ?c S_compoundIndexResult = Some (MongoError ''no space'')"
    by (simp_all add: fault_at_def)
  have w: "length (console ?w) = 0" "calls ?w = []" by (simp_all add: fresh_world_def)
  note tt = index_failures_are_local [of ?t "MongoError ''no space''" ?w]
  note cc = index_failures_are_local [of ?c "MongoError ''no space''" ?w]
  from tt t have "console (snd (runTask5 ?t ?w)) ! (length (console ?w) + 2) =
        ConsoleError [Str ''Error creating title index:'', Str (message (MongoError ''no space''))]"
    by blast
  then have 1: "console (snd (runTask5 ?t ?w)) ! 2 =
        ConsoleError [Str ''Error creating title index:'', Str ''no space'']"
    by (simp only: w add_0 js_error.sel)
  from tt te have "fst (runTask5 ?t ?w) = Inr ()
      \<and> calls (snd (runTask5 ?t ?w)) =
          calls ?w @ [S_titleIndexResult, S_compoundIndexResult,
                     S_explainTitleSearch, S_explainCompoundSearch]"
    by blast
  then have 2: "calls (snd (runTask5 ?t ?w)) =
        [S_titleIndexResult, S_compoundIndexResult,
         S_explainTitleSearch, S_explainCompoundSearch]"
    and 3: "fst (runTask5 ?t ?w) = Inr ()"
    by (simp_all only: w append_Nil)
  from cc c have "console (snd (runTask5 ?c ?w)) ! (length (console ?w) + 3) =
        ConsoleError [Str ''Error creating compound index:'',
                      Str (message (MongoError ''no space''))]"
    by blast
  then have 4: "console (snd (runTask5 ?c ?w)) ! 3 =
        ConsoleError [Str ''Error creating compound index:'', Str ''no space'']"
    by (simp only: w add_0 js_error.sel)
  from t c 1 2 3 4 show ?thesis by (intro conjI)
qed

section \<open>The top-level handler and the closing of the connection\<close>

text \<open>
  Claim C8, as the script has it. The claim speaks of every execution; it holds for
  those in which \<open>client.close()\<close> itself returns. Then \<open>main\<close> never fails, the
  connection ends closed, and:
  \<^item> when no site of the \<open>try\<close> block aborts, every site is called in program
    order, then \<open>close\<close>, and the last line printed is the closing message;
  \<^item> when \<open>s\<close> is the first site that aborts (its call rejects with \<open>e\<close>, outside
    the two index-creation \<open>try\<close>/\<open>catch\<close> blocks), the calls issued are those
    before \<open>s\<close>, \<open>s\<close> itself and \<open>close\<close>, so nothing after \<open>s\<close> runs; the
    handler prints \<open>An error occurred:\<close> with \<open>e\<close> right after what the \<open>try\<close>
    block printed, and the closing message comes last.
\<close>

theorem main_abort_and_close:
  assumes "fault en S_close = None"
  shows "((\<forall>t\<in>set workflow. \<not> aborts en t) \<longrightarrow>
            fst (run_tasks en w) = Inr ()
          \<and> calls (snd (main en w)) = calls w @ workflow @ [S_close]
          \<and> console (snd (main en w)) =
              console (snd (run_tasks en w)) @
              [ConsoleLog [Str ''\<newline>Connection to MongoDB closed.'']])
       \<and> (workflow = pre @ s # post \<and> (\<forall>t\<in>set pre. \<not> aborts en t)
            \<and> fault en s = Some e \<and> \<not> caught_locally s \<longrightarrow>
            fst (run_tasks en w) = Inl e
          \<and> calls (snd (main en w)) = calls w @ pre @ [s, S_close]
          \<and> console (snd (main en w)) =
              console (snd (run_tasks en w)) @
              [ConsoleError [Str ''An error occurred:'', Err e],
               ConsoleLog [Str ''\<newline>Connection to MongoDB closed.'']])
       \<and> fst (main en w) = Inr ()
       \<and> connected (snd (main en w)) = False"
proof (intro conjI impI)
  note m = main_run [OF assms, of w]
  show "fst (main en w) = Inr ()" and "connected (snd (main en w)) = False"
    using m by simp_all
  {
    assume a: "\<forall>t\<in>set workflow. \<not> aborts en t"
    from attempted_no_abort [OF a] have t: "attempted en workflow = workflow"
      and o: "outcome en workflow = Inr ()" by simp_all
    show "fst (run_tasks en w) = Inr ()" by (simp add: run_tasks_trace o)
    show "calls (snd (main en w)) = calls w @ workflow @ [S_close]"
      using m by (simp add: run_tasks_trace t)
    show "console (snd (main en w)) =
              console (snd (run_tasks en w)) @
              [ConsoleLog [Str ''\<newline>Connection to MongoDB closed.'']]"
      using m by (simp add: run_tasks_trace o)
  }
  {
    assume a: "workflow = pre @ s # post \<and> (\<forall>t\<in>set pre. \<not> aborts en t)
            \<and> fault en s = Some e \<and> \<not> caught_locally s"
    then have "attempted en (pre @ s # post) = pre @ [s]
             \<and> outcome en (pre @ s # post) = Inl e"
      by (intro attempted_first_abort) simp_all
    with a have t: "attempted en workflow = pre @ [s]"
      and o: "outcome en workflow = Inl e" by simp_all
    show "fst (run_tasks en w) = Inl e" by (simp add: run_tasks_trace o)
    show "calls (snd (main en w)) = calls w @ pre @ [s, S_close]"
      using m by (simp add: run_tasks_trace t)
    show "console (snd (main en w)) =
              console (snd (run_tasks en w)) @
              [ConsoleError [Str ''An error occurred:'', Err e],
               ConsoleLog [Str ''\<newline>Connection to MongoDB closed.'']]"
      using m by (simp add: run_tasks_trace o)
  }
qed

theorem main_abort_and_close_witness:
  "fault no_faults S_close = None
   \<and> list_all (\<lambda>t. \<not> aborts no_faults t) workflow
   \<and> fst (run_tasks no_faults (fresh_world sample_books)) = Inr ()
   \<and> calls (snd (main no_faults (fresh_world sample_books))) = workflow @ [S_close]
   \<and> console (snd (main no_faults (fresh_world sample_books))) =
        console (snd (run_tasks no_faults (fresh_world sample_books))) @
        [ConsoleLog [Str ''\<newline>Connection to MongoDB closed.'']]
   \<and> fault (fault_at S_page1 ''timeout'') S_close = None
   \<and> workflow = (S_connect # task2_sites @
                   [S_inStockAndRecent, S_projectedBooks, S_sortedAsc, S_sortedDesc])
                 @ S_page1 # (S_page2 # task4_sites @ task5_sites)
   \<and> list_all (\<lambda>t. \<not> aborts (fault_at S_page1 ''timeout'') t)
        (S_connect # task2_sites @
           [S_inStockAndRecent, S_projectedBooks, S_sortedAsc, S_sortedDesc])
   \<and> fault (fault_at S_page1 ''timeout'') S_page1 = Some (MongoError ''timeout'')
   \<and> \<not> caught_locally S_page1
   \<and> fst (run_tasks (fault_at S_page1 ''timeout'') (fresh_world sample_books)) =
        Inl (MongoError ''timeout'')
   \<and> calls (snd (main (fault_at S_page1 ''timeout'') (fresh_world sample_books))) =
        (S_connect # task2_sites @
           [S_inStockAndRecent, S_projectedBooks, S_sortedAsc, S_sortedDesc])
        @ [S_page1, S_close]
   \<and> console (snd (main (fault_at S_page1 ''timeout'') (fresh_world sample_books))) =
        console (snd (run_tasks (fault_at S_page1 ''timeout'') (fresh_world sample_books))) @
        [ConsoleError [Str ''An error occurred:'', Err (MongoError ''timeout'')],
         ConsoleLog [Str ''\<newline>Connection to MongoDB closed.'']]
   \<and> connected (snd (main (fault_at S_page1 ''timeout'') (fresh_world sample_books))) = False"
proof -
  have n: "fault no_faults S_close = None" by (simp add: no_faults_def)
  have a: "\<forall>t\<in>set workflow. \<not> aborts no_faults t"
    by (simp add: aborts_def no_faults_def)
  have f: "fault (fault_at S_page1 ''timeout'') S_close = None"
    by (simp add: fault_at_def)
  have w: "workflow = (S_connect # task2_sites @
                   [S_inStockAndRecent, S_projectedBooks, S_sortedAsc, S_sortedDesc])
                 @ S_page1 # (S_page2 # task4_sites @ task5_sites)"
    by (simp add: workflow_def task3_sites_def)
  have p: "\<forall>t\<in>set (S_connect # task2_sites @
           [S_inStockAndRecent, S_projectedBooks, S_sortedAsc, S_sortedDesc]).
             \<not> aborts (fault_at S_page1 ''timeout'') t"
    by (simp add: aborts_def fault_at_def task2_sites_def)
  have s: "fault (fault_at S_page1 ''timeout'') S_page1 = Some (MongoError ''timeout'')"
    by (simp add: fault_at_def)
  have c: "\<not> caught_locally S_page1" by (simp add: caught_locally_def)
  have e: "calls (fresh_world sample_books) = []" by (simp add: fresh_world_def)
  from main_abort_and_close [OF n, of "fresh_world sample_books"] a e
  have 1: "fst (run_tasks no_faults (fresh_world sample_books)) = Inr ()
   \<and> calls (snd (main no_faults (fresh_world sample_books))) = workflow @ [S_close]
   \<and> console (snd (main no_faults (fresh_world sample_books))) =
        console (snd (run_tasks no_faults (fresh_world sample_books))) @
        [ConsoleLog [Str ''\<newline>Connection to MongoDB closed.'']]"
    by simp
  from main_abort_and_close [OF f, where s = S_page1 and e = "MongoError ''timeout''"
         and w = "fresh_world sample_books"
         and pre = "S_connect # task2_sites @
           [S_inStockAndRecent, S_projectedBooks, S_sortedAsc, S_sortedDesc]"
         and post = "S_page2 # task4_sites @ task5_sites"] w p s c e
  have 2: "fst (run_tasks (fault_at S_page1 ''timeout'') (fresh_world sample_books)) =
        Inl (MongoError ''timeout'')
   \<and> calls (snd (main (fault_at S_page1 ''timeout'') (fresh_world sample_books))) =
        (S_connect # task2_sites @
           [S_inStockAndRecent, S_projectedBooks, S_sortedAsc, S_sortedDesc])
        @ [S_page1, S_close]
   \<and> console (snd (main (fault_at S_page1 ''timeout'') (fresh_world sample_books))) =
        console (snd (run_tasks (fault_at S_page1 ''timeout'') (fresh_world sample_books))) @
        [ConsoleError [Str ''An error occurred:'', Err (MongoError ''timeout'')],
         ConsoleLog [Str ''\<newline>Connection to MongoDB closed.'']]
   \<and> connected (snd (main (fault_at S_page1 ''timeout'') (fresh_world sample_books))) = False"
    by simp
  from a p have la: "list_all (\<lambda>t. \<not> aborts no_faults t) workflow"
    and lp: "list_all (\<lambda>t. \<not> aborts (fault_at S_page1 ''timeout'') t)
        (S_connect # task2_sites @
           [S_inStockAndRecent, S_projectedBooks, S_sortedAsc, S_sortedDesc])"
    by (simp_all only: list_all_iff)
  from n la 1 f w lp s c 2 show ?thesis by (intro conjI) simp_all
qed

text \<open>
  When \<open>client.close()\<close> rejects inside \<open>finally\<close>, the closing message is never
  printed and the rejection leaves \<open>main\<close>: it is not the handler of \<open>main\<close> that
  prints it but the \<open>.catch(console.error)\<close> on the script's last line.
\<close>

theorem main_close_rejects_counterexample:
  "fst (main (fault_at S_close ''socket closed'') (fresh_world sample_books)) =
     Inl (MongoError ''socket closed'')
   \<and> ConsoleLog [Str ''\<newline>Connection to MongoDB closed.'']
       \<notin> set (console (snd (main (fault_at S_close ''socket closed'')
                                (fresh_world sample_books))))
   \<and> ConsoleError [Str ''An error occurred:'', Err (MongoError ''socket closed'')]
       \<notin> set (console (snd (main (fault_at S_close ''socket closed'')
                                (fresh_world sample_books))))
   \<and> console (snd (script (fault_at S_close ''socket closed'') (fresh_world sample_books))) =
       console (snd (main (fault_at S_close ''socket closed'') (fresh_world sample_books))) @
       [ConsoleError [Err (MongoError ''socket closed'')]]"
proof -
  let ?en = "fault_at S_close ''socket closed''"
  let ?w = "fresh_world sample_books"
  have c: "fault ?en S_close = Some (MongoError ''socket closed'')"
    by (simp add: fault_at_def)
  have q: "s \<noteq> S_close \<Longrightarrow> fault ?en s = None" for s
    by (simp add: fault_at_def)
  have e: "console ?w = []" by (simp add: fresh_world_def)
  note m = main_close_fault [OF c, of ?w]
  have r: "fst (run_tasks ?en ?w) = Inr ()" using q by (rule quiet_run(1))
  have 1: "console (snd (main ?en ?w)) = console (snd (run_tasks ?en ?w))"
    using m r by simp
  have 2: "ConsoleLog [Str ''\<newline>Connection to MongoDB closed.'']
             \<notin> set (console (snd (run_tasks ?en ?w)))"
    using quiet_run(3) [of ?en "''onnection to MongoDB closed.''" ?w] q e by simp
  have 3: "ConsoleError [Str ''An error occurred:'', Err (MongoError ''socket closed'')]
             \<notin> set (console (snd (run_tasks ?en ?w)))"
    using quiet_run(2) [of ?en _ ?w] q e by simp
  from m 1 2 3 show ?thesis by simp
qed

end
